theory Spec2Isabelle
  imports Complex_Main "HOL-Library.Word"
begin

section \<open>Geometry, textures and painter state\<close>

text \<open>
  The headers of the client (point.h, rect.h, texture.h, painter.h, pool.h, drawpool.h,
  lightview.h) are not part of the sources at hand; only \<^verbatim>\<open>drawpool.cpp\<close> and
  \<^verbatim>\<open>lightview.cpp\<close> are. The value types below are therefore reconstructed from the way
  the two files use them. Floating point values (opacities) are carried around as reals and
  never computed with.
\<close>

text \<open>Modelled from the spec: the declaration of Point is missing; a point is a pair of
  integer coordinates, the default-constructed point is the null point.\<close>

record Point =
  point_x :: int
  point_y :: int

definition Point_default :: Point where
  "Point_default = \<lparr>point_x = 0, point_y = 0\<rparr>"

definition Point_isNull :: "Point \<Rightarrow> bool" where
  "Point_isNull p = (point_x p = 0 \<and> point_y p = 0)"

record Size =
  size_width :: int
  size_height :: int

text \<open>Modelled from the spec: the declaration of Rect is missing; a rectangle is an origin
  with a width and a height, it is empty when it has no area, and \<^verbatim>\<open>==\<close> compares
  all of its fields.\<close>

record Rect =
  rect_x :: int
  rect_y :: int
  rect_width :: int
  rect_height :: int

definition Rect_default :: Rect where
  "Rect_default = \<lparr>rect_x = 0, rect_y = 0, rect_width = 0, rect_height = 0\<rparr>"

definition Rect_of :: "Point \<Rightarrow> Size \<Rightarrow> Rect" where
  "Rect_of p sz =
     \<lparr>rect_x = point_x p, rect_y = point_y p,
      rect_width = size_width sz, rect_height = size_height sz\<rparr>"

definition Rect_isEmpty :: "Rect \<Rightarrow> bool" where
  "Rect_isEmpty r = (rect_width r \<le> 0 \<or> rect_height r \<le> 0)"

text \<open>Modelled from the spec: a texture exposes \<^verbatim>\<open>getSize()\<close>, \<^verbatim>\<open>isEmpty()\<close>,
  \<^verbatim>\<open>isOpaque()\<close> and \<^verbatim>\<open>canSuperimposed()\<close>; the observers are fields of the
  texture object. A \<^verbatim>\<open>TexturePtr\<close> is a \<open>Texture option\<close>, \<open>None\<close> being
  \<^verbatim>\<open>nullptr\<close>.\<close>

record Texture =
  texture_id :: nat
  getSize :: Size
  isEmpty :: bool
  isOpaque :: bool
  canSuperimposed :: bool

datatype CompositionMode =
  CompositionMode_Normal | CompositionMode_Light | CompositionMode_Other nat

text \<open>Modelled from the spec: the painter state (the RenderState of the spec) holds the
  texture handle, the composition mode, the opacity, the clip region and the shader; it
  is compared field by field.\<close>

record PainterState =
  texture :: "Texture option"
  compositionMode :: CompositionMode
  state_opacity :: real
  clipRect :: Rect
  shaderProgram :: "nat option"

definition PainterState_default :: PainterState where
  "PainterState_default =
     \<lparr>texture = None, compositionMode = CompositionMode_Normal, state_opacity = 1,
      clipRect = Rect_default, shaderProgram = None\<rparr>"

section \<open>Draw methods, draw objects and pools\<close>

datatype DrawMode = DrawMode_None | Triangles | TriangleStrip

datatype DrawMethodType =
    DRAW_FILL_COORDS
  | DRAW_TEXTURE_COORDS
  | DRAW_TEXTURED_RECT
  | DRAW_UPSIDEDOWN_TEXTURED_RECT
  | DRAW_REPEATED_TEXTURED_RECT
  | DRAW_REPEATED_FILLED_RECT
  | DRAW_FILLED_RECT
  | DRAW_FILLED_TRIANGLE
  | DRAW_BOUNDING_RECT

record DrawMethod =
  method_type :: DrawMethodType
  rects :: "Rect \<times> Rect"
  points :: "Point \<times> Point \<times> Point"
  dest :: Point
  intValue :: int

text \<open>\<^verbatim>\<open>Pool::DrawMethod method{ type }\<close>: every other member is value-initialised.\<close>

definition DrawMethod_init :: "DrawMethodType \<Rightarrow> DrawMethod" where
  "DrawMethod_init t =
     \<lparr>method_type = t, rects = (Rect_default, Rect_default),
      points = (Point_default, Point_default, Point_default),
      dest = Point_default, intValue = 0\<rparr>"

text \<open>What the calls on a CoordsBuffer append to it, in order.\<close>

datatype CoordsCmd =
    AddBoudingRect Rect int
  | AddRect Rect
  | AddTexRect Rect Rect
  | AddQuad Rect Rect
  | AddUpsideDownRect Rect Rect
  | AddUpsideDownQuad Rect Rect
  | AddTriangle Point Point Point

type_synonym CoordsBuffer = "CoordsCmd list"

text \<open>A deferred action is a closure; it is known by a number only, and running it is an
  event of the trace.\<close>

record DrawObject =
  state :: PainterState
  coordsBuffer :: "CoordsBuffer option"
  drawMode :: DrawMode
  drawMethods :: "DrawMethod list"
  action :: "nat option"

record FrameBuffer =
  fb_id :: nat
  isDrawable :: bool
  blendDisabled :: bool
  fb_compositionMode :: CompositionMode

definition disableBlend :: "FrameBuffer \<Rightarrow> FrameBuffer" where
  "disableBlend fb = fb\<lparr>blendDisabled := True\<rparr>"

definition setCompositionMode :: "CompositionMode \<Rightarrow> FrameBuffer \<Rightarrow> FrameBuffer" where
  "setCompositionMode m fb = fb\<lparr>fb_compositionMode := m\<rparr>"

text \<open>Modelled from the spec: the members of PoolFramed (pool.h is missing). The status
  pair holds the last committed snapshot of the content hash and the running hash.\<close>

record PoolFramed =
  m_framebuffer :: FrameBuffer
  m_status :: "nat \<times> nat"
  m_dest :: Rect
  m_src :: Rect
  m_beforeDraw :: "nat option"
  m_afterDraw :: "nat option"

text \<open>A pool is its list of draw objects; a framed pool has the members of PoolFramed
  as well.\<close>

record Pool =
  m_objects :: "DrawObject list"
  m_framed :: "PoolFramed option"

definition isFramed :: "Pool \<Rightarrow> bool" where
  "isFramed p = (m_framed p \<noteq> None)"

text \<open>Modelled from the spec: \<^verbatim>\<open>updateHash(texture, method)\<close> folds the texture
  identity and the method content into the running hash. The folding function itself is
  a parameter \<open>H\<close> of everything that hashes.\<close>

type_synonym HashFn = "Texture option \<Rightarrow> DrawMethod \<Rightarrow> nat \<Rightarrow> nat"

definition updateHash :: "HashFn \<Rightarrow> Texture option \<Rightarrow> DrawMethod \<Rightarrow> Pool \<Rightarrow> Pool" where
  "updateHash H tex method p =
     p\<lparr>m_framed :=
         map_option (\<lambda>f. f\<lparr>m_status := (fst (m_status f), H tex method (snd (m_status f)))\<rparr>)
           (m_framed p)\<rparr>"

text \<open>Modelled from the spec: \<^verbatim>\<open>hasModification()\<close> (the hash changed since the last
  draw), \<^verbatim>\<open>updateStatus()\<close> (commit the hash) and \<^verbatim>\<open>resetCurrentStatus()\<close>.\<close>

definition hasModification :: "PoolFramed \<Rightarrow> bool" where
  "hasModification f = (fst (m_status f) \<noteq> snd (m_status f))"

definition updateStatus :: "PoolFramed \<Rightarrow> PoolFramed" where
  "updateStatus f = f\<lparr>m_status := (snd (m_status f), snd (m_status f))\<rparr>"

definition resetCurrentStatus :: "PoolFramed \<Rightarrow> PoolFramed" where
  "resetCurrentStatus f = f\<lparr>m_status := (fst (m_status f), 0)\<rparr>"

section \<open>The registry\<close>

text \<open>Modelled from the spec: the pool types (declarations.h is missing).\<close>

datatype PoolType = MAP | LIGHT | UI | FOREGROUND

definition poolTypes :: "PoolType list" where
  "poolTypes = [MAP, LIGHT, UI, FOREGROUND]"

type_synonym addr = nat

text \<open>
  Pools are shared objects: the registry's array, the process-wide current pool and the
  thread-local current pool all point to them. A pointer is an address (or \<open>None\<close> for
  \<^verbatim>\<open>nullptr\<close>) into \<open>heap\<close>; \<open>lim\<close> is the next address \<^verbatim>\<open>make_shared\<close> hands out.
  \<open>T_CURRENT_POOL\<close> is the thread-local of the calling thread.
\<close>

record DrawPool =
  m_multiThread :: bool
  m_currentPool :: "addr option"
  T_CURRENT_POOL :: "addr option"
  m_pools :: "PoolType \<Rightarrow> addr option"
  m_coordsbuffer :: CoordsBuffer
  heap :: "addr \<Rightarrow> Pool option"
  lim :: addr

datatype error = NullPointer

definition multiThreadEnabled :: "DrawPool \<Rightarrow> bool" where
  "multiThreadEnabled s = m_multiThread s"

definition isOnThread :: "DrawPool \<Rightarrow> bool" where
  "isOnThread s = (T_CURRENT_POOL s \<noteq> None)"

definition getCurrentPool :: "DrawPool \<Rightarrow> addr option" where
  "getCurrentPool s = (if m_multiThread s then T_CURRENT_POOL s else m_currentPool s)"

text \<open>Dereferencing a pool pointer; a null pointer is an error.\<close>

definition deref :: "DrawPool \<Rightarrow> addr option \<Rightarrow> error + (addr \<times> Pool)" where
  "deref s p =
     (case p of None \<Rightarrow> Inl NullPointer
      | Some a \<Rightarrow> (case heap s a of None \<Rightarrow> Inl NullPointer | Some pool \<Rightarrow> Inr (a, pool)))"

definition store :: "DrawPool \<Rightarrow> addr \<Rightarrow> Pool \<Rightarrow> DrawPool" where
  "store s a pool = s\<lparr>heap := (heap s)(a := Some pool)\<rparr>"

text \<open>\<^verbatim>\<open>link\<close> only builds a closure around the caller's function and stores it in
  the pool; closures are outside this model, and none of the operations below runs one.\<close>

definition terminate :: "DrawPool \<Rightarrow> DrawPool" where
  "terminate s = s\<lparr>T_CURRENT_POOL := None, m_currentPool := None, m_pools := (\<lambda>_. None)\<rparr>"

definition createPool :: "PoolType \<Rightarrow> DrawPool \<Rightarrow> DrawPool \<times> addr" where
  "createPool type s =
     (let a = lim s; pool = \<lparr>m_objects = [], m_framed = None\<rparr>
      in (s\<lparr>m_pools := (m_pools s)(type := Some a),
            heap := (heap s)(a := Some pool), lim := Suc a\<rparr>, a))"

text \<open>The frame buffer that \<^verbatim>\<open>g_framebuffers.createFrameBuffer(true)\<close> returns is the
  parameter \<open>fb\<close>. The second branch tests \<open>MAP\<close> again, as the source does.\<close>

definition createPoolF_framebuffer :: "PoolType \<Rightarrow> FrameBuffer \<Rightarrow> FrameBuffer" where
  "createPoolF_framebuffer type fb =
     (if type = MAP then disableBlend fb
      else if type = MAP then setCompositionMode CompositionMode_Light fb
      else fb)"

definition createPoolF :: "FrameBuffer \<Rightarrow> PoolType \<Rightarrow> DrawPool \<Rightarrow> DrawPool \<times> addr" where
  "createPoolF fb type s =
     (let a = lim s;
          pool = \<lparr>m_objects = [],
                  m_framed = Some \<lparr>m_framebuffer = createPoolF_framebuffer type fb,
                                   m_status = (0, 0), m_dest = Rect_default,
                                   m_src = Rect_default, m_beforeDraw = None,
                                   m_afterDraw = None\<rparr>\<rparr>
      in (s\<lparr>m_pools := (m_pools s)(type := Some a),
            heap := (heap s)(a := Some pool), lim := Suc a\<rparr>, a))"

section \<open>Adding primitives\<close>

text \<open>
  The painter is an external collaborator: what \<^verbatim>\<open>g_painter->getCurrentState()\<close>
  returns is the parameter \<open>ps\<close> of every operation that reads it.
\<close>

text \<open>The condition under which \<^verbatim>\<open>add\<close> erases a previous method. C++ evaluates it
  left to right and short-circuits, so a texture is dereferenced only when the
  destinations are equal and the first disjunct is false.\<close>

definition occludes ::
  "bool \<Rightarrow> Texture option \<Rightarrow> Texture option \<Rightarrow> DrawMethod \<Rightarrow> DrawMethod \<Rightarrow> error + bool" where
  "occludes sameState tex prevTex method prevMtd =
     (if dest prevMtd = dest method then
        if sameState \<and> snd (rects prevMtd) = snd (rects method) then Inr True
        else (case tex of
                None \<Rightarrow> Inl NullPointer
              | Some t \<Rightarrow>
                  if isOpaque t then
                    (case prevTex of
                       None \<Rightarrow> Inl NullPointer
                     | Some pt \<Rightarrow> Inr (canSuperimposed pt))
                  else Inr False)
      else Inr False)"

text \<open>The loop over the previous object's methods: erase the first one that is
  occluded, then stop.\<close>

fun erasePrev ::
  "bool \<Rightarrow> Texture option \<Rightarrow> Texture option \<Rightarrow> DrawMethod \<Rightarrow> DrawMethod list
     \<Rightarrow> error + DrawMethod list" where
  "erasePrev sameState tex prevTex method [] = Inr []"
| "erasePrev sameState tex prevTex method (prevMtd # rest) =
     (case occludes sameState tex prevTex method prevMtd of
        Inl e \<Rightarrow> Inl e
      | Inr True \<Rightarrow> Inr rest
      | Inr False \<Rightarrow>
          (case erasePrev sameState tex prevTex method rest of
             Inl e \<Rightarrow> Inl e
           | Inr rest' \<Rightarrow> Inr (prevMtd # rest')))"

definition newObject :: "PainterState \<Rightarrow> DrawMode \<Rightarrow> DrawMethod \<Rightarrow> DrawObject" where
  "newObject currentState mode method =
     \<lparr>state = currentState, coordsBuffer = None, drawMode = mode,
      drawMethods = [method], action = None\<rparr>"

text \<open>The block guarded by \<^verbatim>\<open>hasDest\<close>: what is left of the previous object's
  methods.\<close>

definition eraseOccluded ::
  "PainterState \<Rightarrow> Texture option \<Rightarrow> DrawMethod \<Rightarrow> DrawObject \<Rightarrow> error + DrawMethod list" where
  "eraseOccluded currentState tex method prevObj =
     (let sameState = (state prevObj = currentState);
          hasDest = (\<not> Point_isNull (dest method))
      in if hasDest
         then erasePrev sameState tex (texture (state prevObj)) method (drawMethods prevObj)
         else Inr (drawMethods prevObj))"

definition add ::
  "HashFn \<Rightarrow> Texture option \<Rightarrow> DrawMethod \<Rightarrow> DrawMode \<Rightarrow> PainterState \<Rightarrow> DrawPool
     \<Rightarrow> error + DrawPool" where
  "add H tex method mode ps s =
     (let currentState = ps\<lparr>texture := tex\<rparr> in
      case deref s (getCurrentPool s) of
        Inl e \<Rightarrow> Inl e
      | Inr (a, pool0) \<Rightarrow>
          let pool = (if isFramed pool0 then updateHash H tex method pool0 else pool0);
              list = m_objects pool
          in if list \<noteq> [] then
               let prevObj = last list;
                   sameState = (state prevObj = currentState)
               in case eraseOccluded currentState tex method prevObj of
                    Inl e \<Rightarrow> Inl e
                  | Inr ms \<Rightarrow>
                      if sameState then
                        Inr (store s a
                          (pool\<lparr>m_objects := butlast list @
                             [prevObj\<lparr>drawMode := Triangles, drawMethods := ms @ [method]\<rparr>]\<rparr>))
                      else
                        Inr (store s a
                          (pool\<lparr>m_objects := butlast list @ [prevObj\<lparr>drawMethods := ms\<rparr>] @
                             [newObject currentState mode method]\<rparr>))
             else Inr (store s a (pool\<lparr>m_objects := [newObject currentState mode method]\<rparr>)))"

text \<open>\<^verbatim>\<open>std::find_if\<close> followed by \<^verbatim>\<open>push_back\<close> on the object found: \<open>None\<close> when
  no object has the state.\<close>

fun pushToFirst :: "PainterState \<Rightarrow> DrawMethod \<Rightarrow> DrawObject list \<Rightarrow> DrawObject list option" where
  "pushToFirst currentState method [] = None"
| "pushToFirst currentState method (obj # objs) =
     (if state obj = currentState
      then Some (obj\<lparr>drawMethods := drawMethods obj @ [method]\<rparr> # objs)
      else map_option ((#) obj) (pushToFirst currentState method objs))"

definition addRepeated ::
  "Texture option \<Rightarrow> DrawMethod \<Rightarrow> DrawMode \<Rightarrow> PainterState \<Rightarrow> DrawPool \<Rightarrow> error + DrawPool" where
  "addRepeated tex method mode ps s =
     (let currentState = ps\<lparr>texture := tex\<rparr> in
      case deref s (getCurrentPool s) of
        Inl e \<Rightarrow> Inl e
      | Inr (a, pool) \<Rightarrow>
          (case pushToFirst currentState method (m_objects pool) of
             Some objs \<Rightarrow> Inr (store s a (pool\<lparr>m_objects := objs\<rparr>))
           | None \<Rightarrow>
               Inr (store s a
                 (pool\<lparr>m_objects := m_objects pool @ [newObject currentState mode method]\<rparr>))))"

text \<open>Modelled from the spec: the default arguments declared in drawpool.h, which is
  missing: the draw mode of \<^verbatim>\<open>add\<close> and \<^verbatim>\<open>addRepeated\<close>, and the null point for
  \<^verbatim>\<open>originalDest\<close>.\<close>

definition defaultDrawMode :: DrawMode where
  "defaultDrawMode = Triangles"

definition guarded :: "DrawPool \<Rightarrow> bool" where
  "guarded s = (multiThreadEnabled s \<and> \<not> isOnThread s)"

text \<open>The caller's coordinate buffer is passed with its vertex hash.\<close>

definition addFillCoords ::
  "HashFn \<Rightarrow> CoordsBuffer \<Rightarrow> int \<Rightarrow> PainterState \<Rightarrow> DrawPool \<Rightarrow> error + DrawPool" where
  "addFillCoords H cb vertexHash ps s =
     (if guarded s then Inr s
      else
        let method = (DrawMethod_init DRAW_FILL_COORDS)\<lparr>intValue := vertexHash\<rparr>;
            obj = \<lparr>state = ps, coordsBuffer = Some cb, drawMode = Triangles,
                   drawMethods = [method], action = None\<rparr>
        in case deref s (getCurrentPool s) of
             Inl e \<Rightarrow> Inl e
           | Inr (a, pool0) \<Rightarrow>
               let pool = (if isFramed pool0 then updateHash H None method pool0 else pool0)
               in Inr (store s a (pool\<lparr>m_objects := m_objects pool @ [obj]\<rparr>)))"

definition addTextureCoords ::
  "HashFn \<Rightarrow> CoordsBuffer \<Rightarrow> int \<Rightarrow> Texture option \<Rightarrow> DrawMode \<Rightarrow> PainterState \<Rightarrow> DrawPool
     \<Rightarrow> error + DrawPool" where
  "addTextureCoords H cb vertexHash tex mode ps s =
     (if guarded s then Inr s
      else if (case tex of None \<Rightarrow> False | Some t \<Rightarrow> isEmpty t) then Inr s
      else
        let method = (DrawMethod_init DRAW_TEXTURE_COORDS)\<lparr>intValue := vertexHash\<rparr>;
            currentState = ps\<lparr>texture := tex\<rparr>;
            obj = \<lparr>state = currentState, coordsBuffer = Some cb, drawMode = mode,
                   drawMethods = [method], action = None\<rparr>
        in case deref s (getCurrentPool s) of
             Inl e \<Rightarrow> Inl e
           | Inr (a, pool0) \<Rightarrow>
               let pool = (if isFramed pool0 then updateHash H tex method pool0 else pool0)
               in Inr (store s a (pool\<lparr>m_objects := m_objects pool @ [obj]\<rparr>)))"

text \<open>\<^verbatim>\<open>dest.isEmpty() || src.isEmpty() || texture->isEmpty()\<close>: the texture is
  dereferenced only when both rectangles are non-empty.\<close>

definition rectsOrTextureEmpty :: "Rect \<Rightarrow> Rect \<Rightarrow> Texture option \<Rightarrow> error + bool" where
  "rectsOrTextureEmpty dst src tex =
     (if Rect_isEmpty dst \<or> Rect_isEmpty src then Inr True
      else (case tex of None \<Rightarrow> Inl NullPointer | Some t \<Rightarrow> Inr (isEmpty t)))"

definition addTexturedRect ::
  "HashFn \<Rightarrow> Rect \<Rightarrow> Texture option \<Rightarrow> Rect \<Rightarrow> Point \<Rightarrow> PainterState \<Rightarrow> DrawPool
     \<Rightarrow> error + DrawPool" where
  "addTexturedRect H dst tex src originalDest ps s =
     (if guarded s then Inr s
      else case rectsOrTextureEmpty dst src tex of
        Inl e \<Rightarrow> Inl e
      | Inr True \<Rightarrow> Inr s
      | Inr False \<Rightarrow>
          add H tex
            ((DrawMethod_init DRAW_TEXTURED_RECT)\<lparr>rects := (dst, src), dest := originalDest\<rparr>)
            TriangleStrip ps s)"

text \<open>The overload without a source rectangle reads the texture's size before any
  check.\<close>

definition addTexturedRect2 ::
  "HashFn \<Rightarrow> Rect \<Rightarrow> Texture option \<Rightarrow> PainterState \<Rightarrow> DrawPool \<Rightarrow> error + DrawPool" where
  "addTexturedRect2 H dst tex ps s =
     (case tex of
        None \<Rightarrow> Inl NullPointer
      | Some t \<Rightarrow>
          addTexturedRect H dst tex (Rect_of Point_default (getSize t)) Point_default ps s)"

definition addUpsideDownTexturedRect ::
  "HashFn \<Rightarrow> Rect \<Rightarrow> Texture option \<Rightarrow> Rect \<Rightarrow> PainterState \<Rightarrow> DrawPool \<Rightarrow> error + DrawPool" where
  "addUpsideDownTexturedRect H dst tex src ps s =
     (if guarded s then Inr s
      else case rectsOrTextureEmpty dst src tex of
        Inl e \<Rightarrow> Inl e
      | Inr True \<Rightarrow> Inr s
      | Inr False \<Rightarrow>
          add H tex ((DrawMethod_init DRAW_UPSIDEDOWN_TEXTURED_RECT)\<lparr>rects := (dst, src)\<rparr>)
            TriangleStrip ps s)"

definition addRepeatedTexturedRect ::
  "Rect \<Rightarrow> Texture option \<Rightarrow> Rect \<Rightarrow> PainterState \<Rightarrow> DrawPool \<Rightarrow> error + DrawPool" where
  "addRepeatedTexturedRect dst tex src ps s =
     (if guarded s then Inr s
      else case rectsOrTextureEmpty dst src tex of
        Inl e \<Rightarrow> Inl e
      | Inr True \<Rightarrow> Inr s
      | Inr False \<Rightarrow>
          addRepeated tex ((DrawMethod_init DRAW_REPEATED_TEXTURED_RECT)\<lparr>rects := (dst, src)\<rparr>)
            defaultDrawMode ps s)"

definition addRepeatedTexturedRect2 ::
  "Rect \<Rightarrow> Texture option \<Rightarrow> PainterState \<Rightarrow> DrawPool \<Rightarrow> error + DrawPool" where
  "addRepeatedTexturedRect2 dst tex ps s =
     (if guarded s then Inr s
      else case tex of
        None \<Rightarrow> Inl NullPointer
      | Some t \<Rightarrow> addRepeatedTexturedRect dst tex (Rect_of Point_default (getSize t)) ps s)"

definition addRepeatedFilledRect :: "Rect \<Rightarrow> PainterState \<Rightarrow> DrawPool \<Rightarrow> error + DrawPool" where
  "addRepeatedFilledRect dst ps s =
     (if guarded s then Inr s
      else if Rect_isEmpty dst then Inr s
      else addRepeated None
             ((DrawMethod_init DRAW_REPEATED_FILLED_RECT)\<lparr>rects := (dst, Rect_default)\<rparr>)
             defaultDrawMode ps s)"

definition addFilledRect :: "HashFn \<Rightarrow> Rect \<Rightarrow> PainterState \<Rightarrow> DrawPool \<Rightarrow> error + DrawPool" where
  "addFilledRect H dst ps s =
     (if guarded s then Inr s
      else if Rect_isEmpty dst then Inr s
      else add H None ((DrawMethod_init DRAW_FILLED_RECT)\<lparr>rects := (dst, Rect_default)\<rparr>)
             defaultDrawMode ps s)"

definition addFilledTriangle ::
  "HashFn \<Rightarrow> Point \<Rightarrow> Point \<Rightarrow> Point \<Rightarrow> PainterState \<Rightarrow> DrawPool \<Rightarrow> error + DrawPool" where
  "addFilledTriangle H a b c ps s =
     (if guarded s then Inr s
      else if a = b \<or> a = c \<or> b = c then Inr s
      else add H None ((DrawMethod_init DRAW_FILLED_TRIANGLE)\<lparr>points := (a, b, c)\<rparr>)
             defaultDrawMode ps s)"

definition addBoundingRect ::
  "HashFn \<Rightarrow> Rect \<Rightarrow> int \<Rightarrow> PainterState \<Rightarrow> DrawPool \<Rightarrow> error + DrawPool" where
  "addBoundingRect H dst innerLineWidth ps s =
     (if guarded s then Inr s
      else if Rect_isEmpty dst \<or> innerLineWidth = 0 then Inr s
      else add H None
             ((DrawMethod_init DRAW_BOUNDING_RECT)
                \<lparr>rects := (dst, Rect_default), intValue := innerLineWidth\<rparr>)
             defaultDrawMode ps s)"

definition addAction :: "nat option \<Rightarrow> DrawPool \<Rightarrow> error + DrawPool" where
  "addAction act s =
     (if guarded s then Inr s
      else case deref s (getCurrentPool s) of
        Inl e \<Rightarrow> Inl e
      | Inr (a, pool) \<Rightarrow>
          Inr (store s a
            (pool\<lparr>m_objects := m_objects pool @
               [\<lparr>state = PainterState_default, coordsBuffer = None, drawMode = DrawMode_None,
                 drawMethods = [], action = act\<rparr>]\<rparr>)))"

section \<open>Replaying a pool\<close>

text \<open>
  The painter, the frame buffers, the worker threads and the closures are outside this
  unit; the calls made on them are recorded, in order, as events.
\<close>

datatype Event =
    Join addr
  | SaveAndResetState
  | RestoreSavedState
  | Bind nat
  | Release nat
  | BeforeDraw nat
  | FrameBufferDraw nat Rect Rect
  | AfterDraw nat
  | RunAction nat
  | ExecuteState PainterState
  | SetTexture "Texture option"
  | DrawCoords CoordsBuffer DrawMode

definition methodCoords :: "DrawMode \<Rightarrow> DrawMethod \<Rightarrow> CoordsCmd list" where
  "methodCoords mode method =
     (if method_type method = DRAW_BOUNDING_RECT then
        [AddBoudingRect (fst (rects method)) (intValue method)]
      else if method_type method = DRAW_FILLED_RECT \<or>
              method_type method = DRAW_REPEATED_FILLED_RECT then
        [AddRect (fst (rects method))]
      else if method_type method = DRAW_FILLED_TRIANGLE then
        (case points method of (a, b, c) \<Rightarrow> [AddTriangle a b c])
      else if method_type method = DRAW_TEXTURED_RECT \<or>
              method_type method = DRAW_REPEATED_TEXTURED_RECT then
        (if mode = Triangles then [AddTexRect (fst (rects method)) (snd (rects method))]
         else [AddQuad (fst (rects method)) (snd (rects method))])
      else if method_type method = DRAW_UPSIDEDOWN_TEXTURED_RECT then
        (if mode = Triangles then [AddUpsideDownRect (fst (rects method)) (snd (rects method))]
         else [AddUpsideDownQuad (fst (rects method)) (snd (rects method))])
      else [])"

definition addCoords :: "DrawObject \<Rightarrow> CoordsBuffer \<Rightarrow> CoordsBuffer" where
  "addCoords obj coords = coords @ concat (map (methodCoords (drawMode obj)) (drawMethods obj))"

text \<open>\<^verbatim>\<open>drawObject\<close> returns the object (its buffer may have been cached), the
  registry's scratch buffer and the events.\<close>

definition drawObject ::
  "bool \<Rightarrow> CoordsBuffer \<Rightarrow> DrawObject \<Rightarrow> DrawObject \<times> CoordsBuffer \<times> Event list" where
  "drawObject onThread scratch obj =
     (if onThread then
        (if coordsBuffer obj = None
         then (obj\<lparr>coordsBuffer := Some (addCoords obj [])\<rparr>, scratch, [])
         else (obj, scratch, []))
      else case action obj of
        Some f \<Rightarrow> (obj, scratch, [RunAction f])
      | None \<Rightarrow>
          if drawMethods obj = [] then (obj, scratch, [])
          else (case coordsBuffer obj of
                  Some cb \<Rightarrow>
                    (obj, scratch,
                     [ExecuteState (state obj), SetTexture (texture (state obj)),
                      DrawCoords cb (drawMode obj)])
                | None \<Rightarrow>
                    (obj, [],
                     [ExecuteState (state obj), SetTexture (texture (state obj)),
                      DrawCoords (addCoords obj scratch) (drawMode obj)])))"

fun drawObjects ::
  "bool \<Rightarrow> CoordsBuffer \<Rightarrow> DrawObject list \<Rightarrow> DrawObject list \<times> CoordsBuffer \<times> Event list" where
  "drawObjects onThread scratch [] = ([], scratch, [])"
| "drawObjects onThread scratch (obj # objs) =
     (case drawObject onThread scratch obj of
        (obj', scratch', evs) \<Rightarrow>
          (case drawObjects onThread scratch' objs of
             (objs', scratch'', evs') \<Rightarrow> (obj' # objs', scratch'', evs @ evs')))"

definition hookEvents :: "(nat \<Rightarrow> Event) \<Rightarrow> nat option \<Rightarrow> Event list" where
  "hookEvents ev hook = (case hook of None \<Rightarrow> [] | Some f \<Rightarrow> [ev f])"

text \<open>The body of the loop over the pools in \<^verbatim>\<open>draw\<close>.\<close>

definition drawPoolEntry :: "DrawPool \<Rightarrow> addr option \<Rightarrow> error + (DrawPool \<times> Event list)" where
  "drawPoolEntry s p =
     (case deref s p of
        Inl e \<Rightarrow> Inl e
      | Inr (a, pool) \<Rightarrow>
          (case m_framed pool of
             Some pf \<Rightarrow>
               let frameBuffer = m_framebuffer pf in
               if isDrawable frameBuffer then
                 (if hasModification pf then
                    (case drawObjects (isOnThread s) (m_coordsbuffer s) (m_objects pool) of
                       (objs', scratch', evs) \<Rightarrow>
                         Inr (store (s\<lparr>m_coordsbuffer := scratch'\<rparr>) a
                                \<lparr>m_objects = [], m_framed = Some (updateStatus pf)\<rparr>,
                              [SaveAndResetState, Bind (fb_id frameBuffer)] @ evs @
                              [Release (fb_id frameBuffer)] @
                              hookEvents BeforeDraw (m_beforeDraw pf) @
                              [FrameBufferDraw (fb_id frameBuffer) (m_dest pf) (m_src pf)] @
                              hookEvents AfterDraw (m_afterDraw pf) @
                              [RestoreSavedState]))
                  else
                    Inr (store s a (pool\<lparr>m_objects := []\<rparr>),
                         [SaveAndResetState] @
                         hookEvents BeforeDraw (m_beforeDraw pf) @
                         [FrameBufferDraw (fb_id frameBuffer) (m_dest pf) (m_src pf)] @
                         hookEvents AfterDraw (m_afterDraw pf) @
                         [RestoreSavedState]))
               else Inr (store s a (pool\<lparr>m_objects := []\<rparr>), [])
           | None \<Rightarrow>
               (case drawObjects (isOnThread s) (m_coordsbuffer s) (m_objects pool) of
                  (objs', scratch', evs) \<Rightarrow>
                    Inr (store (s\<lparr>m_coordsbuffer := scratch'\<rparr>) a (pool\<lparr>m_objects := []\<rparr>),
                         evs))))"

fun drawPools :: "DrawPool \<Rightarrow> addr option list \<Rightarrow> error + (DrawPool \<times> Event list)" where
  "drawPools s [] = Inr (s, [])"
| "drawPools s (p # ps) =
     (case drawPoolEntry s p of
        Inl e \<Rightarrow> Inl e
      | Inr (s', evs) \<Rightarrow>
          (case drawPools s' ps of
             Inl e \<Rightarrow> Inl e
           | Inr (s'', evs') \<Rightarrow> Inr (s'', evs @ evs')))"

fun joinPools :: "DrawPool \<Rightarrow> addr option list \<Rightarrow> error + Event list" where
  "joinPools s [] = Inr []"
| "joinPools s (p # ps) =
     (case deref s p of
        Inl e \<Rightarrow> Inl e
      | Inr (a, pool) \<Rightarrow>
          (case joinPools s ps of Inl e \<Rightarrow> Inl e | Inr evs \<Rightarrow> Inr (Join a # evs)))"

definition draw :: "DrawPool \<Rightarrow> error + (DrawPool \<times> Event list)" where
  "draw s =
     (case (if multiThreadEnabled s then joinPools s (map (m_pools s) poolTypes) else Inr []) of
        Inl e \<Rightarrow> Inl e
      | Inr joins \<Rightarrow>
          (case drawPools s (map (m_pools s) poolTypes) of
             Inl e \<Rightarrow> Inl e
           | Inr (s', evs) \<Rightarrow> Inr (s', joins @ evs)))"

section \<open>The light view\<close>

text \<open>Modelled from the spec: a light has a colour and an intensity, a light source a
  position, a colour (0 marks a shadow), an intensity and the opacity captured when it
  was added; lightview.h and the pool manager that \<^verbatim>\<open>lightview.cpp\<close> calls are
  missing. Of the view's framed pool only what the view sets is kept.\<close>

record Light =
  light_intensity :: "8 word"
  light_color :: "8 word"

record LightSource =
  pos :: Point
  color :: "8 word"
  intensity :: "16 word"
  opacity :: real

type_synonym Color = nat

record LightPool =
  enabled :: bool
  smooth :: bool
  pool_size :: Size

record LightView =
  m_isDark :: bool
  m_tileSize :: "8 word"
  m_globalLightColor :: Color
  m_sources :: "LightSource list"
  m_pool :: LightPool

definition isDark :: "LightView \<Rightarrow> bool" where
  "isDark lv = m_isDark lv"

definition setSmooth :: "bool \<Rightarrow> LightView \<Rightarrow> LightView" where
  "setSmooth b lv = lv\<lparr>m_pool := (m_pool lv)\<lparr>smooth := b\<rparr>\<rparr>"

definition resize :: "Size \<Rightarrow> 8 word \<Rightarrow> LightView \<Rightarrow> LightView" where
  "resize sz tileSize lv =
     lv\<lparr>m_tileSize := tileSize,
        m_pool := (m_pool lv)\<lparr>pool_size :=
          \<lparr>size_width = size_width sz * uint tileSize,
           size_height = size_height sz * uint tileSize\<rparr>\<rparr>\<rparr>"

text \<open>\<open>op\<close> is what \<^verbatim>\<open>g_drawPool.getOpacity()\<close> returns.\<close>

definition addLightSource :: "Point \<Rightarrow> Light \<Rightarrow> real \<Rightarrow> LightView \<Rightarrow> LightView" where
  "addLightSource p light op lv =
     (if \<not> isDark lv then lv
      else if m_sources lv \<noteq> [] \<and>
              pos (last (m_sources lv)) = p \<and> color (last (m_sources lv)) = light_color light
      then lv\<lparr>m_sources := butlast (m_sources lv) @
                [(last (m_sources lv))\<lparr>intensity :=
                    max (intensity (last (m_sources lv))) (ucast (light_intensity light))\<rparr>]\<rparr>
      else lv\<lparr>m_sources := m_sources lv @
                [\<lparr>pos = p, color = light_color light,
                  intensity = ucast (light_intensity light), opacity = op\<rparr>]\<rparr>)"

datatype LightEvent =
    Use Rect Rect Color
  | AddLightRect Point "16 word" "8 word" real "16 word"
  | SetBlendEquationMax
  | Flush
  | SetOpacity real
  | AddShadeRect Point "8 word" Color
  | ResetOpacity

text \<open>The loop over the sources; \<open>clr\<close> is the flag \<^verbatim>\<open>_clr\<close>. A light rectangle is
  recorded with its position, its radius \<^verbatim>\<open>intensity * m_tileSize\<close> (truncated to 16
  bits), and the colour, opacity and intensity its colour is computed from.\<close>

fun drawSources :: "8 word \<Rightarrow> Color \<Rightarrow> bool \<Rightarrow> LightSource list \<Rightarrow> LightEvent list" where
  "drawSources tileSize globalColor clr [] = []"
| "drawSources tileSize globalColor clr (light # lights) =
     (if color light \<noteq> 0 then
        [AddLightRect (pos light) (intensity light * ucast tileSize) (color light)
           (opacity light) (intensity light),
         SetBlendEquationMax] @
        drawSources tileSize globalColor True lights
      else
        (if clr then [Flush] else []) @
        [SetOpacity (opacity light), AddShadeRect (pos light) tileSize globalColor,
         ResetOpacity] @
        drawSources tileSize globalColor False lights)"

definition LightView_draw :: "Rect \<Rightarrow> Rect \<Rightarrow> LightView \<Rightarrow> LightView \<times> LightEvent list" where
  "LightView_draw dst src lv =
     (let lv1 = lv\<lparr>m_pool := (m_pool lv)\<lparr>enabled := isDark lv\<rparr>\<rparr> in
      if \<not> isDark lv1 then (lv1, [])
      else (lv1\<lparr>m_sources := []\<rparr>,
            Use dst src (m_globalLightColor lv1) #
            drawSources (m_tileSize lv1) (m_globalLightColor lv1) True (m_sources lv1)))"

section \<open>Observations and sample values\<close>

text \<open>The draw objects and the hash status of the pool at an address, and the same read
  off the result of an operation.\<close>

definition poolObjects :: "DrawPool \<Rightarrow> addr \<Rightarrow> DrawObject list" where
  "poolObjects s a = (case heap s a of None \<Rightarrow> [] | Some p \<Rightarrow> m_objects p)"

definition poolStatus :: "DrawPool \<Rightarrow> addr \<Rightarrow> (nat \<times> nat) option" where
  "poolStatus s a =
     (case heap s a of None \<Rightarrow> None | Some p \<Rightarrow> map_option m_status (m_framed p))"

definition resultObjects :: "error + DrawPool \<Rightarrow> addr \<Rightarrow> error + DrawObject list" where
  "resultObjects r a = (case r of Inl e \<Rightarrow> Inl e | Inr s \<Rightarrow> Inr (poolObjects s a))"

definition resultStatus :: "error + DrawPool \<Rightarrow> addr \<Rightarrow> error + (nat \<times> nat) option" where
  "resultStatus r a = (case r of Inl e \<Rightarrow> Inl e | Inr s \<Rightarrow> Inr (poolStatus s a))"

text \<open>The erasing condition of \<^verbatim>\<open>add\<close> when neither texture is null.\<close>

definition pruneCondition :: "bool \<Rightarrow> Texture \<Rightarrow> Texture \<Rightarrow> DrawMethod \<Rightarrow> DrawMethod \<Rightarrow> bool" where
  "pruneCondition sameState t pt method prevMtd =
     (dest prevMtd = dest method \<and>
      (sameState \<and> snd (rects prevMtd) = snd (rects method) \<or>
       isOpaque t \<and> canSuperimposed pt))"

text \<open>The condition in the words of the specification, which compares the sizes of the
  source rectangles.\<close>

definition Rect_size :: "Rect \<Rightarrow> Size" where
  "Rect_size r = \<lparr>size_width = rect_width r, size_height = rect_height r\<rparr>"

definition specPruneCondition ::
  "bool \<Rightarrow> Texture \<Rightarrow> Texture \<Rightarrow> DrawMethod \<Rightarrow> DrawMethod \<Rightarrow> bool" where
  "specPruneCondition sameState t pt method prevMtd =
     (dest prevMtd = dest method \<and>
      (sameState \<and> Rect_size (snd (rects prevMtd)) = Rect_size (snd (rects method)) \<or>
       isOpaque t \<and> canSuperimposed pt))"

text \<open>
  What the end-of-frame draw is to do, written without the functions of the replay: the
  events of replaying one draw object on the owning thread, the events that composite the
  cached target of a framed pool, the events of the whole pass over one pool, and the pool
  the pass leaves.
\<close>

definition objectEvents :: "DrawObject \<Rightarrow> Event list" where
  "objectEvents obj =
     (case action obj of
        Some f \<Rightarrow> [RunAction f]
      | None \<Rightarrow>
          if drawMethods obj = [] then []
          else [ExecuteState (state obj), SetTexture (texture (state obj)),
                DrawCoords
                  (case coordsBuffer obj of
                     Some cb \<Rightarrow> cb
                   | None \<Rightarrow> concat (map (methodCoords (drawMode obj)) (drawMethods obj)))
                  (drawMode obj)])"

definition compositeEvents :: "PoolFramed \<Rightarrow> Event list" where
  "compositeEvents pf =
     (case m_beforeDraw pf of None \<Rightarrow> [] | Some f \<Rightarrow> [BeforeDraw f]) @
     [FrameBufferDraw (fb_id (m_framebuffer pf)) (m_dest pf) (m_src pf)] @
     (case m_afterDraw pf of None \<Rightarrow> [] | Some f \<Rightarrow> [AfterDraw f])"

definition framePassEvents :: "Pool \<Rightarrow> Event list" where
  "framePassEvents pool =
     (case m_framed pool of
        None \<Rightarrow> concat (map objectEvents (m_objects pool))
      | Some pf \<Rightarrow>
          if isDrawable (m_framebuffer pf) then
            (if hasModification pf then
               [SaveAndResetState, Bind (fb_id (m_framebuffer pf))] @
               concat (map objectEvents (m_objects pool)) @
               [Release (fb_id (m_framebuffer pf))] @
               compositeEvents pf @ [RestoreSavedState]
             else [SaveAndResetState] @ compositeEvents pf @ [RestoreSavedState])
          else [])"

definition afterFrame :: "Pool \<Rightarrow> Pool" where
  "afterFrame pool =
     \<lparr>m_objects = [],
      m_framed =
        map_option
          (\<lambda>pf. if isDrawable (m_framebuffer pf) \<and> hasModification pf then updateStatus pf
                else pf)
          (m_framed pool)\<rparr>"

text \<open>A sequence of \<^verbatim>\<open>add\<close> calls under one painter state and one texture.\<close>

fun addAll ::
  "HashFn \<Rightarrow> Texture option \<Rightarrow> DrawMethod list \<Rightarrow> DrawMode \<Rightarrow> PainterState \<Rightarrow> DrawPool
     \<Rightarrow> error + DrawPool" where
  "addAll H tex [] mode ps s = Inr s"
| "addAll H tex (method # methods) mode ps s =
     (case add H tex method mode ps s of
        Inl e \<Rightarrow> Inl e
      | Inr s' \<Rightarrow> addAll H tex methods mode ps s')"

text \<open>Sample values: a translucent and an opaque texture, textured rectangles drawn at
  the destination (5, 5) from a given source rectangle, a hash function, and a registry
  whose only pool, at address 0, is the current one.\<close>

definition exTexture :: Texture where
  "exTexture = \<lparr>texture_id = 1, getSize = \<lparr>size_width = 32, size_height = 32\<rparr>,
                isEmpty = False, isOpaque = False, canSuperimposed = True\<rparr>"

definition exOpaque :: Texture where
  "exOpaque = \<lparr>texture_id = 2, getSize = \<lparr>size_width = 32, size_height = 32\<rparr>,
               isEmpty = False, isOpaque = True, canSuperimposed = True\<rparr>"

definition exRect :: "int \<Rightarrow> int \<Rightarrow> Rect" where
  "exRect x y = \<lparr>rect_x = x, rect_y = y, rect_width = 32, rect_height = 32\<rparr>"

definition exMethod :: "Rect \<Rightarrow> DrawMethod" where
  "exMethod src =
     (DrawMethod_init DRAW_TEXTURED_RECT)
       \<lparr>rects := (exRect 5 5, src), dest := \<lparr>point_x = 5, point_y = 5\<rparr>\<rparr>"

definition exFilled :: "Rect \<Rightarrow> DrawMethod" where
  "exFilled dst = (DrawMethod_init DRAW_FILLED_RECT)\<lparr>rects := (dst, Rect_default)\<rparr>"

definition exState :: "Texture option \<Rightarrow> PainterState" where
  "exState tex = PainterState_default\<lparr>texture := tex\<rparr>"

definition exObject :: "Texture option \<Rightarrow> DrawMode \<Rightarrow> DrawMethod list \<Rightarrow> DrawObject" where
  "exObject tex mode methods =
     \<lparr>state = exState tex, coordsBuffer = None, drawMode = mode, drawMethods = methods,
      action = None\<rparr>"

definition exHash :: HashFn where
  "exHash tex method h =
     2 * h + (case tex of None \<Rightarrow> 0 | Some t \<Rightarrow> texture_id t) + 1"

definition exFrameBuffer :: FrameBuffer where
  "exFrameBuffer =
     \<lparr>fb_id = 7, isDrawable = True, blendDisabled = False,
      fb_compositionMode = CompositionMode_Normal\<rparr>"

definition exFramed :: "nat \<times> nat \<Rightarrow> PoolFramed" where
  "exFramed st =
     \<lparr>m_framebuffer = exFrameBuffer, m_status = st, m_dest = exRect 0 0, m_src = exRect 0 0,
      m_beforeDraw = None, m_afterDraw = Some 3\<rparr>"

definition exRegistry :: "bool \<Rightarrow> Pool \<Rightarrow> DrawPool" where
  "exRegistry multi pool =
     \<lparr>m_multiThread = multi, m_currentPool = Some 0, T_CURRENT_POOL = None,
      m_pools = (\<lambda>_. None)(MAP := Some 0), m_coordsbuffer = [],
      heap = (\<lambda>_. None)(0 := Some pool), lim = 1\<rparr>"

text \<open>A registry with its four pools: a framed map pool with two draw objects, a hook
  before and a hook after the composite, and a running hash that differs from the
  snapshot; a framed light pool with one draw object and an unchanged hash; a plain pool
  with one draw object; an empty plain pool.\<close>

definition exAddr :: "PoolType \<Rightarrow> addr" where
  "exAddr ty = (case ty of MAP \<Rightarrow> 0 | LIGHT \<Rightarrow> 1 | UI \<Rightarrow> 2 | FOREGROUND \<Rightarrow> 3)"

definition exPool :: "PoolType \<Rightarrow> Pool" where
  "exPool ty =
     (case ty of
        MAP \<Rightarrow>
          \<lparr>m_objects = [exObject (Some exTexture) TriangleStrip [exMethod (exRect 0 0)],
                        exObject None Triangles [exFilled (exRect 1 1)]],
           m_framed = Some ((exFramed (0, 1))\<lparr>m_beforeDraw := Some 2\<rparr>)\<rparr>
      | LIGHT \<Rightarrow>
          \<lparr>m_objects = [exObject None Triangles [exFilled (exRect 1 1)]],
           m_framed = Some (exFramed (1, 1))\<rparr>
      | UI \<Rightarrow>
          \<lparr>m_objects = [exObject None Triangles [exFilled (exRect 2 2)]], m_framed = None\<rparr>
      | FOREGROUND \<Rightarrow> \<lparr>m_objects = [], m_framed = None\<rparr>)"

definition exFrameRegistry :: DrawPool where
  "exFrameRegistry =
     \<lparr>m_multiThread = False, m_currentPool = None, T_CURRENT_POOL = None,
      m_pools = (\<lambda>ty. Some (exAddr ty)), m_coordsbuffer = [],
      heap = (\<lambda>_. None)(0 := Some (exPool MAP), 1 := Some (exPool LIGHT),
                          2 := Some (exPool UI), 3 := Some (exPool FOREGROUND)),
      lim = 4\<rparr>"

definition exLight :: "8 word \<Rightarrow> Light" where
  "exLight i = \<lparr>light_intensity = i, light_color = 5\<rparr>"

definition exLightView :: "bool \<Rightarrow> LightSource list \<Rightarrow> LightView" where
  "exLightView dark sources =
     \<lparr>m_isDark = dark, m_tileSize = 32, m_globalLightColor = 215, m_sources = sources,
      m_pool = \<lparr>enabled = True, smooth = False,
                pool_size = \<lparr>size_width = 0, size_height = 0\<rparr>\<rparr>\<rparr>"

section \<open>Basic facts\<close>

lemma m_objects_updateHash [simp]: "m_objects (updateHash H tex method p) = m_objects p"
  by (simp add: updateHash_def)

lemma m_objects_hashed [simp]:
  "m_objects (if isFramed p then updateHash H tex m p else p) = m_objects p"
  by simp

lemma getCurrentPool_store [simp]: "getCurrentPool (store s a p) = getCurrentPool s"
  by (simp add: getCurrentPool_def store_def)

lemma deref_store:
  "deref s q = Inr (a, pool) \<Longrightarrow> deref (store s a pool') q = Inr (a, pool')"
  by (auto simp add: deref_def store_def split: option.splits)

lemma poolObjects_store [simp]: "poolObjects (store s a p) a = m_objects p"
  by (simp add: poolObjects_def store_def)

lemma heap_store_other [simp]: "b \<noteq> a \<Longrightarrow> heap (store s a p) b = heap s b"
  by (simp add: store_def)

lemmas ex_defs = exTexture_def exOpaque_def exRect_def exMethod_def exFilled_def exState_def
  exObject_def exHash_def exFrameBuffer_def exFramed_def exLight_def exLightView_def
  DrawMethod_init_def Point_default_def Rect_default_def PainterState_default_def
  Point_isNull_def newObject_def

lemma ex_deref:
  "deref (exRegistry False pool) (getCurrentPool (exRegistry False pool)) = Inr (0, pool)"
  by (simp add: deref_def getCurrentPool_def exRegistry_def)

text \<open>What the erasing loop returns: the list as it was when no method is occluded, and
  the list without the first occluded method otherwise.\<close>

lemma erasePrev_shape:
  "erasePrev ss tex ptex m ms = Inr ms' \<Longrightarrow>
     ms' = ms \<and> (\<forall>x \<in> set ms. occludes ss tex ptex m x = Inr False) \<or>
     (\<exists>i < length ms. occludes ss tex ptex m (ms ! i) = Inr True \<and>
        (\<forall>j < i. occludes ss tex ptex m (ms ! j) = Inr False) \<and>
        ms' = take i ms @ drop (Suc i) ms)"
proof (induction ms arbitrary: ms')
  case Nil
  then show ?case by simp
next
  case (Cons x xs)
  show ?case
  proof (cases "occludes ss tex ptex m x")
    case (Inl e)
    with Cons.prems show ?thesis by simp
  next
    case (Inr b)
    show ?thesis
    proof (cases b)
      case True
      with Inr Cons.prems have "ms' = xs" by simp
      with Inr True have "0 < length (x # xs) \<and> occludes ss tex ptex m ((x # xs) ! 0) = Inr True \<and>
        (\<forall>j < 0. occludes ss tex ptex m ((x # xs) ! j) = Inr False) \<and>
        ms' = take 0 (x # xs) @ drop (Suc 0) (x # xs)" by simp
      then show ?thesis by blast
    next
      case False
      with Inr Cons.prems obtain r where r: "erasePrev ss tex ptex m xs = Inr r" and ms': "ms' = x # r"
        by (auto split: sum.splits)
      from Cons.IH[OF r] show ?thesis
      proof
        assume "r = xs \<and> (\<forall>x \<in> set xs. occludes ss tex ptex m x = Inr False)"
        with ms' Inr False show ?thesis by simp
      next
        assume "\<exists>i < length xs. occludes ss tex ptex m (xs ! i) = Inr True \<and>
        (\<forall>j < i. occludes ss tex ptex m (xs ! j) = Inr False) \<and>
        r = take i xs @ drop (Suc i) xs"
        then obtain i where i: "i < length xs" "occludes ss tex ptex m (xs ! i) = Inr True"
          "\<forall>j < i. occludes ss tex ptex m (xs ! j) = Inr False" "r = take i xs @ drop (Suc i) xs"
          by blast
        have "\<forall>j < Suc i. occludes ss tex ptex m ((x # xs) ! j) = Inr False"
          using i(3) Inr False by (auto simp: nth_Cons split: nat.splits)
        with i ms' have "Suc i < length (x # xs) \<and> occludes ss tex ptex m ((x # xs) ! Suc i) = Inr True \<and>
          (\<forall>j < Suc i. occludes ss tex ptex m ((x # xs) ! j) = Inr False) \<and>
          ms' = take (Suc i) (x # xs) @ drop (Suc (Suc i)) (x # xs)" by simp
        then show ?thesis by blast
      qed
    qed
  qed
qed

lemma erasePrev_first:
  "i < length ms \<Longrightarrow> occludes ss tex ptex m (ms ! i) = Inr True \<Longrightarrow>
   \<forall>j < i. occludes ss tex ptex m (ms ! j) = Inr False \<Longrightarrow>
   erasePrev ss tex ptex m ms = Inr (take i ms @ drop (Suc i) ms)"
proof (induction ms arbitrary: i)
  case Nil
  then show ?case by simp
next
  case (Cons x xs)
  show ?case
  proof (cases i)
    case 0
    with Cons.prems show ?thesis by simp
  next
    case (Suc k)
    with Cons.prems have x: "occludes ss tex ptex m x = Inr False" by auto
    from Suc Cons.prems have "k < length xs" "occludes ss tex ptex m (xs ! k) = Inr True"
      "\<forall>j < k. occludes ss tex ptex m (xs ! j) = Inr False" by auto
    from Cons.IH[OF this] x Suc show ?thesis by simp
  qed
qed

lemma erasePrev_none:
  "\<forall>x \<in> set ms. occludes ss tex ptex m x = Inr False \<Longrightarrow> erasePrev ss tex ptex m ms = Inr ms"
  by (induction ms) auto


lemma occludes_Some:
  "occludes ss (Some t) (Some pt) m x = Inr (pruneCondition ss t pt m x)"
  by (auto simp add: occludes_def pruneCondition_def)

text \<open>When \<^verbatim>\<open>add\<close> returns: the current pool pointer is valid and the erasing loop
  meets no null texture, which is the case when the destination is null, when no texture
  involved is null, or when no previous method has the destination.\<close>

lemma erasePrev_total:
  assumes "tex \<noteq> None" and "ptex \<noteq> None"
  shows "\<exists>r. erasePrev ss tex ptex m ms = Inr r"
proof (induction ms)
  case Nil
  then show ?case by simp
next
  case (Cons x xs)
  from assms obtain t pt where "tex = Some t" "ptex = Some pt" by auto
  then have "occludes ss tex ptex m x = Inr (pruneCondition ss t pt m x)"
    by (simp add: occludes_Some)
  with Cons show ?case by (cases "pruneCondition ss t pt m x") auto
qed

lemma erasePrev_other_dest:
  assumes "\<forall>x \<in> set ms. dest x \<noteq> dest m"
  shows "erasePrev ss tex ptex m ms = Inr ms"
  using assms by (intro erasePrev_none) (simp add: occludes_def)

lemma add_returns:
  assumes cur: "deref s (getCurrentPool s) = Inr (a, pool)"
    and ok: "Point_isNull (dest method) \<or>
             (tex \<noteq> None \<and> (\<forall>obj \<in> set (m_objects pool). texture (state obj) \<noteq> None)) \<or>
             (\<forall>obj \<in> set (m_objects pool). \<forall>x \<in> set (drawMethods obj). dest x \<noteq> dest method)"
  shows "\<exists>s'. add H tex method mode ps s = Inr s'"
proof (cases "m_objects pool = []")
  case True
  with cur show ?thesis by (simp add: add_def Let_def)
next
  case False
  then have l: "last (m_objects pool) \<in> set (m_objects pool)" by simp
  have "\<exists>r. eraseOccluded (ps\<lparr>texture := tex\<rparr>) tex method (last (m_objects pool)) = Inr r"
  proof (cases "Point_isNull (dest method)")
    case True
    then show ?thesis by (simp add: eraseOccluded_def)
  next
    case nn: False
    with ok consider
      "tex \<noteq> None \<and> texture (state (last (m_objects pool))) \<noteq> None" |
      "\<forall>x \<in> set (drawMethods (last (m_objects pool))). dest x \<noteq> dest method"
      using l by blast
    then show ?thesis
    proof cases
      case 1
      with nn erasePrev_total show ?thesis by (simp add: eraseOccluded_def)
    next
      case 2
      with nn erasePrev_other_dest show ?thesis by (simp add: eraseOccluded_def)
    qed
  qed
  then obtain r where "eraseOccluded (ps\<lparr>texture := tex\<rparr>) tex method (last (m_objects pool)) = Inr r" ..
  with cur False show ?thesis by (simp add: add_def Let_def)
qed

section \<open>Merging into the last draw object\<close>

text \<open>
  C1: when the state derived for an \<^verbatim>\<open>add\<close> call (the painter state with the given
  texture) equals the state of the pool's last draw object, the method is appended to that
  object, after the methods that the erasing step left, no object is created, and the
  object's draw mode becomes \<open>Triangles\<close>; when the pool is empty or the state differs,
  a new draw object holding just the method is appended. With a null destination the
  erasing step leaves every method.
\<close>

theorem add_merge_rule:
  assumes cur: "deref s (getCurrentPool s) = Inr (a, pool)"
    and cs: "cs = ps\<lparr>texture := tex\<rparr>"
    and objs: "objs = m_objects pool"
  shows "(objs = [] \<longrightarrow>
            resultObjects (add H tex method mode ps s) a = Inr [newObject cs mode method]) \<and>
         (\<forall>ms. objs \<noteq> [] \<and> eraseOccluded cs tex method (last objs) = Inr ms \<longrightarrow>
            (Point_isNull (dest method) \<longrightarrow> ms = drawMethods (last objs)) \<and>
            (state (last objs) = cs \<longrightarrow>
               resultObjects (add H tex method mode ps s) a =
                 Inr (butlast objs @
                    [(last objs)\<lparr>drawMode := Triangles, drawMethods := ms @ [method]\<rparr>])) \<and>
            (state (last objs) \<noteq> cs \<longrightarrow>
               resultObjects (add H tex method mode ps s) a =
                 Inr (butlast objs @
                    [(last objs)\<lparr>drawMethods := ms\<rparr>, newObject cs mode method])))"
proof (intro conjI allI impI)
  assume "objs = []"
  with cur cs objs
  show "resultObjects (add H tex method mode ps s) a = Inr [newObject cs mode method]"
    by (simp add: add_def resultObjects_def)
next
  fix ms
  assume h: "objs \<noteq> [] \<and> eraseOccluded cs tex method (last objs) = Inr ms"
  {
    assume "Point_isNull (dest method)"
    with h show "ms = drawMethods (last objs)" by (simp add: eraseOccluded_def)
  }
  {
    assume "state (last objs) = cs"
    with h cur cs objs show "resultObjects (add H tex method mode ps s) a =
                 Inr (butlast objs @
                    [(last objs)\<lparr>drawMode := Triangles, drawMethods := ms @ [method]\<rparr>])"
      by (simp add: add_def Let_def resultObjects_def)
  }
  {
    assume "state (last objs) \<noteq> cs"
    with h cur cs objs show "resultObjects (add H tex method mode ps s) a =
                 Inr (butlast objs @
                    [(last objs)\<lparr>drawMethods := ms\<rparr>, newObject cs mode method])"
      by (simp add: add_def Let_def resultObjects_def)
  }
qed

theorem add_merge_rule_witness:
  "resultObjects
     (add exHash None (exFilled (exRect 1 1)) TriangleStrip PainterState_default
        (exRegistry False \<lparr>m_objects = [], m_framed = None\<rparr>)) 0 =
     Inr [exObject None TriangleStrip [exFilled (exRect 1 1)]] \<and>
   resultObjects
     (add exHash None (exFilled (exRect 2 2)) TriangleStrip PainterState_default
        (exRegistry False
           \<lparr>m_objects = [exObject None TriangleStrip [exFilled (exRect 1 1)]],
            m_framed = None\<rparr>)) 0 =
     Inr [exObject None Triangles [exFilled (exRect 1 1), exFilled (exRect 2 2)]] \<and>
   resultObjects
     (add exHash (Some exTexture) (exMethod (exRect 0 0)) TriangleStrip PainterState_default
        (exRegistry False
           \<lparr>m_objects = [exObject None TriangleStrip [exFilled (exRect 1 1)]],
            m_framed = None\<rparr>)) 0 =
     Inr [exObject None TriangleStrip [exFilled (exRect 1 1)],
          exObject (Some exTexture) TriangleStrip [exMethod (exRect 0 0)]]"
proof -
  let ?p0 = "\<lparr>m_objects = [], m_framed = None\<rparr>"
  let ?p1 = "\<lparr>m_objects = [exObject None TriangleStrip [exFilled (exRect 1 1)]],
            m_framed = None\<rparr>"
  have d0: "deref (exRegistry False ?p0) (getCurrentPool (exRegistry False ?p0)) = Inr (0, ?p0)"
    by (rule ex_deref)
  have d1: "deref (exRegistry False ?p1) (getCurrentPool (exRegistry False ?p1)) = Inr (0, ?p1)"
    by (rule ex_deref)
  have e1: "eraseOccluded (exState None) None (exFilled (exRect 2 2))
              (exObject None TriangleStrip [exFilled (exRect 1 1)]) = Inr [exFilled (exRect 1 1)]"
    by (simp add: eraseOccluded_def ex_defs)
  have e2: "eraseOccluded (exState (Some exTexture)) (Some exTexture) (exMethod (exRect 0 0))
              (exObject None TriangleStrip [exFilled (exRect 1 1)]) = Inr [exFilled (exRect 1 1)]"
    by (simp add: eraseOccluded_def occludes_def ex_defs)
  from add_merge_rule [OF d0 refl refl, of exHash None "exFilled (exRect 1 1)" TriangleStrip PainterState_default]
  have a: "resultObjects
     (add exHash None (exFilled (exRect 1 1)) TriangleStrip PainterState_default
        (exRegistry False ?p0)) 0 =
     Inr [exObject None TriangleStrip [exFilled (exRect 1 1)]]"
    by (simp add: newObject_def exObject_def exState_def)
  from add_merge_rule [OF d1 refl refl, of exHash None "exFilled (exRect 2 2)" TriangleStrip PainterState_default] e1
  have b: "resultObjects
     (add exHash None (exFilled (exRect 2 2)) TriangleStrip PainterState_default
        (exRegistry False ?p1)) 0 =
     Inr [exObject None Triangles [exFilled (exRect 1 1), exFilled (exRect 2 2)]]"
    by (simp add: exObject_def exState_def)
  from add_merge_rule [OF d1 refl refl, of exHash "Some exTexture" "exMethod (exRect 0 0)" TriangleStrip PainterState_default] e2
  have c: "resultObjects
     (add exHash (Some exTexture) (exMethod (exRect 0 0)) TriangleStrip PainterState_default
        (exRegistry False ?p1)) 0 =
     Inr [exObject None TriangleStrip [exFilled (exRect 1 1)],
          exObject (Some exTexture) TriangleStrip [exMethod (exRect 0 0)]]"
    by (simp add: exObject_def exState_def newObject_def PainterState_default_def)
  from a b c show ?thesis by simp
qed

text \<open>A sequence of \<^verbatim>\<open>add\<close> calls with null destinations under one painter state and
  one texture, on an empty pool: one draw object holds all the methods in the order of the
  calls, drawn as \<open>Triangles\<close> as soon as there are two.\<close>

lemma add_same_state_null_dest:
  assumes cur: "deref s (getCurrentPool s) = Inr (a, pool)"
    and one: "m_objects pool = [obj]"
    and st: "state obj = ps\<lparr>texture := tex\<rparr>"
    and nul: "Point_isNull (dest method)"
  shows "add H tex method mode ps s =
           Inr (store s a
             ((if isFramed pool then updateHash H tex method pool else pool)
                \<lparr>m_objects :=
                   [obj\<lparr>drawMode := Triangles, drawMethods := drawMethods obj @ [method]\<rparr>]\<rparr>))"
  using assms
  by (simp add: add_def Let_def eraseOccluded_def)

lemma addAll_into_one:
  assumes cur: "deref s (getCurrentPool s) = Inr (a, pool)"
    and one: "m_objects pool = [obj]"
    and st: "state obj = ps\<lparr>texture := tex\<rparr>"
    and nul: "\<forall>m \<in> set ms. Point_isNull (dest m)"
    and ne: "ms \<noteq> []"
  shows "resultObjects (addAll H tex ms mode ps s) a =
           Inr [obj\<lparr>drawMode := Triangles, drawMethods := drawMethods obj @ ms\<rparr>]"
  using assms
proof (induction ms arbitrary: s pool obj)
  case Nil
  then show ?case by simp
next
  case (Cons m ms)
  from Cons.prems have "Point_isNull (dest m)" by simp
  note step = add_same_state_null_dest [OF Cons.prems(1) Cons.prems(2) Cons.prems(3) this, of H mode]
  define pool' where "pool' = (if isFramed pool then updateHash H tex m pool else pool)
      \<lparr>m_objects := [obj\<lparr>drawMode := Triangles, drawMethods := drawMethods obj @ [m]\<rparr>]\<rparr>"
  from step have a: "add H tex m mode ps s = Inr (store s a pool')"
    by (simp add: pool'_def)
  have o: "m_objects pool' = [obj\<lparr>drawMode := Triangles, drawMethods := drawMethods obj @ [m]\<rparr>]"
    by (simp add: pool'_def)
  have d: "deref (store s a pool') (getCurrentPool (store s a pool')) = Inr (a, pool')"
    using Cons.prems(1) by (simp add: deref_store)
  show ?case
  proof (cases "ms = []")
    case True
    with a o show ?thesis by (simp add: resultObjects_def)
  next
    case False
    from Cons.prems have n: "\<forall>m \<in> set ms. Point_isNull (dest m)" by simp
    have s: "state (obj\<lparr>drawMode := Triangles, drawMethods := drawMethods obj @ [m]\<rparr>) = ps\<lparr>texture := tex\<rparr>"
      using Cons.prems(3) by simp
    from Cons.IH [OF d o s n False] a show ?thesis by simp
  qed
qed

lemma addAll_single_object:
  assumes cur: "deref s (getCurrentPool s) = Inr (a, pool)"
    and empty: "m_objects pool = []"
    and nul: "\<forall>m \<in> set (m0 # ms). Point_isNull (dest m)"
  shows "resultObjects (addAll H tex (m0 # ms) mode ps s) a =
           Inr [\<lparr>state = ps\<lparr>texture := tex\<rparr>, coordsBuffer = None,
                 drawMode = (if ms = [] then mode else Triangles),
                 drawMethods = m0 # ms, action = None\<rparr>]"
proof -
  define pool' where "pool' = (if isFramed pool then updateHash H tex m0 pool else pool)
      \<lparr>m_objects := [newObject (ps\<lparr>texture := tex\<rparr>) mode m0]\<rparr>"
  from cur empty have a: "add H tex m0 mode ps s = Inr (store s a pool')"
    by (simp add: add_def Let_def pool'_def)
  have o: "m_objects pool' = [newObject (ps\<lparr>texture := tex\<rparr>) mode m0]"
    by (simp add: pool'_def)
  have d: "deref (store s a pool') (getCurrentPool (store s a pool')) = Inr (a, pool')"
    using cur by (simp add: deref_store)
  show ?thesis
  proof (cases "ms = []")
    case True
    with a o show ?thesis by (simp add: resultObjects_def newObject_def)
  next
    case False
    from nul have n: "\<forall>m \<in> set ms. Point_isNull (dest m)" by simp
    have s: "state (newObject (ps\<lparr>texture := tex\<rparr>) mode m0) = ps\<lparr>texture := tex\<rparr>"
      by (simp add: newObject_def)
    from addAll_into_one [OF d o s n False, of H mode] a False show ?thesis
      by (simp add: newObject_def)
  qed
qed

section \<open>Erasing occluded methods\<close>

text \<open>
  C2 (as amended): for an \<^verbatim>\<open>add\<close> call whose method has a non-null destination, with
  a texture, on a pool whose last draw object has a texture: the first method of the last
  draw object that has the same destination and for which either (a) the new state equals
  the object's state and the source rectangles are equal, or (b) the new texture is opaque
  and the object's texture can be superimposed, is erased before the new method is
  appended (to the same object when the states are equal, in a new object otherwise).
\<close>

theorem add_erases_first_occluded:
  assumes cur: "deref s (getCurrentPool s) = Inr (a, pool)"
    and cs: "cs = ps\<lparr>texture := Some t\<rparr>"
    and objs: "objs = m_objects pool" "objs \<noteq> []"
    and prev: "texture (state (last objs)) = Some pt"
    and ms: "ms = drawMethods (last objs)"
    and hasDest: "\<not> Point_isNull (dest method)"
    and i: "i < length ms"
    and hit: "pruneCondition (state (last objs) = cs) t pt method (ms ! i)"
    and first: "\<forall>j<i. \<not> pruneCondition (state (last objs) = cs) t pt method (ms ! j)"
  shows "resultObjects (add H (Some t) method mode ps s) a =
           Inr (butlast objs @
             (if state (last objs) = cs
              then [(last objs)\<lparr>drawMode := Triangles,
                                drawMethods := take i ms @ drop (Suc i) ms @ [method]\<rparr>]
              else [(last objs)\<lparr>drawMethods := take i ms @ drop (Suc i) ms\<rparr>,
                    newObject cs mode method]))"
proof -
  have "erasePrev (state (last objs) = cs) (Some t) (Some pt) method ms =
          Inr (take i ms @ drop (Suc i) ms)"
    using i hit first by (intro erasePrev_first) (simp_all add: occludes_Some)
  with hasDest prev ms
  have "eraseOccluded cs (Some t) method (last objs) = Inr (take i ms @ drop (Suc i) ms)"
    by (simp add: eraseOccluded_def)
  with cur cs objs show ?thesis
    by (simp add: add_def Let_def resultObjects_def)
qed

theorem add_erases_first_occluded_witness:
  "pruneCondition False exOpaque exTexture (exMethod (exRect 64 0)) (exMethod (exRect 0 0)) \<and>
   resultObjects
     (add exHash (Some exOpaque) (exMethod (exRect 64 0)) TriangleStrip PainterState_default
        (exRegistry False
           \<lparr>m_objects = [exObject (Some exTexture) Triangles
                           [exMethod (exRect 0 0), exMethod (exRect 32 0)]],
            m_framed = None\<rparr>)) 0 =
     Inr [exObject (Some exTexture) Triangles [exMethod (exRect 32 0)],
          exObject (Some exOpaque) TriangleStrip [exMethod (exRect 64 0)]]"
proof -
  let ?p = "\<lparr>m_objects = [exObject (Some exTexture) Triangles
                           [exMethod (exRect 0 0), exMethod (exRect 32 0)]],
            m_framed = None\<rparr>"
  have d: "deref (exRegistry False ?p) (getCurrentPool (exRegistry False ?p)) = Inr (0, ?p)"
    by (rule ex_deref)
  have c: "pruneCondition False exOpaque exTexture (exMethod (exRect 64 0)) (exMethod (exRect 0 0))"
    by (simp add: pruneCondition_def ex_defs)
  have n: "\<not> Point_isNull (dest (exMethod (exRect 64 0)))"
    by (simp add: ex_defs)
  from add_erases_first_occluded [where ps = PainterState_default and H = exHash
      and mode = TriangleStrip and pt = exTexture and i = 0, OF d refl refl _ _ refl n] c
  show ?thesis
    by (simp add: ex_defs)
qed

text \<open>
  The specification's pruning rule, read with its words, fails on the code in two ways.
  First, the code compares the source rectangles themselves, not their sizes: a previous
  method with the same destination, the same state and a source rectangle of the same
  size at another position stays. Second, the scan stops at the first method it erases:
  a second previous method that satisfies the condition stays as well, next to the new
  method.
\<close>

theorem add_keeps_occluded_counterexample:
  "specPruneCondition True exTexture exTexture (exMethod (exRect 32 0)) (exMethod (exRect 0 0)) \<and>
   resultObjects
     (add exHash (Some exTexture) (exMethod (exRect 32 0)) TriangleStrip PainterState_default
        (exRegistry False
           \<lparr>m_objects = [exObject (Some exTexture) TriangleStrip [exMethod (exRect 0 0)]],
            m_framed = None\<rparr>)) 0 =
     Inr [exObject (Some exTexture) Triangles
            [exMethod (exRect 0 0), exMethod (exRect 32 0)]] \<and>
   specPruneCondition False exOpaque exTexture (exMethod (exRect 64 0)) (exMethod (exRect 32 0)) \<and>
   resultObjects
     (add exHash (Some exOpaque) (exMethod (exRect 64 0)) TriangleStrip PainterState_default
        (exRegistry False
           \<lparr>m_objects = [exObject (Some exTexture) Triangles
                           [exMethod (exRect 0 0), exMethod (exRect 32 0)]],
            m_framed = None\<rparr>)) 0 =
     Inr [exObject (Some exTexture) Triangles [exMethod (exRect 32 0)],
          exObject (Some exOpaque) TriangleStrip [exMethod (exRect 64 0)]]"
  by (simp add: specPruneCondition_def Rect_size_def resultObjects_def add_def deref_def
      getCurrentPool_def exRegistry_def isFramed_def eraseOccluded_def occludes_def
      store_def poolObjects_def ex_defs)

text \<open>
  C10: one \<^verbatim>\<open>add\<close> call erases at most one previous method. The draw objects before
  the last are returned as they were, and the methods kept in the last one are either all
  of them, or all but the first method for which the erasing condition holds.
\<close>

theorem add_erases_at_most_one:
  assumes cur: "deref s (getCurrentPool s) = Inr (a, pool)"
    and cs: "cs = ps\<lparr>texture := tex\<rparr>"
    and objs: "objs = m_objects pool" "objs \<noteq> []"
    and ms: "ms = drawMethods (last objs)"
    and ss: "ss = (state (last objs) = cs)"
    and res: "resultObjects (add H tex method mode ps s) a = Inr objs'"
    and kept: "kept = (if ss then butlast (drawMethods (objs' ! (length objs - 1)))
                       else drawMethods (objs' ! (length objs - 1)))"
  shows "take (length objs - 1) objs' = butlast objs \<and>
         length ms \<le> Suc (length kept) \<and>
         (kept = ms \<or>
          (\<exists>i<length ms.
             occludes ss tex (texture (state (last objs))) method (ms ! i) = Inr True \<and>
             (\<forall>j<i. occludes ss tex (texture (state (last objs))) method (ms ! j) = Inr False) \<and>
             kept = take i ms @ drop (Suc i) ms))"
proof -
  from res cur cs objs obtain r where r: "eraseOccluded cs tex method (last objs) = Inr r"
    by (cases "eraseOccluded cs tex method (last objs)")
       (simp_all add: add_def Let_def resultObjects_def)
  from r res cur cs objs ss have objs': "objs' = butlast objs @
      (if ss then [(last objs)\<lparr>drawMode := Triangles, drawMethods := r @ [method]\<rparr>]
       else [(last objs)\<lparr>drawMethods := r\<rparr>, newObject cs mode method])"
    by (auto simp add: add_def Let_def resultObjects_def)
  have len: "length objs - 1 = length (butlast objs)" by simp
  from objs' have t: "take (length objs - 1) objs' = butlast objs"
    unfolding len by simp
  from objs' kept have k: "kept = r"
    unfolding len by (simp add: nth_append)
  have shape: "r = ms \<or>
          (\<exists>i<length ms.
             occludes ss tex (texture (state (last objs))) method (ms ! i) = Inr True \<and>
             (\<forall>j<i. occludes ss tex (texture (state (last objs))) method (ms ! j) = Inr False) \<and>
             r = take i ms @ drop (Suc i) ms)"
  proof (cases "Point_isNull (dest method)")
    case True
    with r ms show ?thesis by (simp add: eraseOccluded_def)
  next
    case False
    with r ms ss have "erasePrev ss tex (texture (state (last objs))) method ms = Inr r"
      by (simp add: eraseOccluded_def)
    from erasePrev_shape [OF this] show ?thesis by blast
  qed
  then have "length ms \<le> Suc (length r)"
    by auto
  with t k shape show ?thesis by simp
qed

theorem add_erases_at_most_one_witness:
  "resultObjects
     (add exHash (Some exOpaque) (exMethod (exRect 64 0)) TriangleStrip PainterState_default
        (exRegistry False
           \<lparr>m_objects = [exObject None Triangles [exFilled (exRect 1 1)],
                         exObject (Some exTexture) Triangles
                           [exMethod (exRect 0 0), exMethod (exRect 32 0)]],
            m_framed = None\<rparr>)) 0 =
     Inr [exObject None Triangles [exFilled (exRect 1 1)],
          exObject (Some exTexture) Triangles [exMethod (exRect 32 0)],
          exObject (Some exOpaque) TriangleStrip [exMethod (exRect 64 0)]] \<and>
   length [exMethod (exRect 0 0), exMethod (exRect 32 0)] \<le>
     Suc (length [exMethod (exRect 32 0)])"
proof -
  let ?p = "\<lparr>m_objects = [exObject None Triangles [exFilled (exRect 1 1)],
                         exObject (Some exTexture) Triangles
                           [exMethod (exRect 0 0), exMethod (exRect 32 0)]],
            m_framed = None\<rparr>"
  let ?r = "[exObject None Triangles [exFilled (exRect 1 1)],
          exObject (Some exTexture) Triangles [exMethod (exRect 32 0)],
          exObject (Some exOpaque) TriangleStrip [exMethod (exRect 64 0)]]"
  have d: "deref (exRegistry False ?p) (getCurrentPool (exRegistry False ?p)) = Inr (0, ?p)"
    by (rule ex_deref)
  have r: "resultObjects
     (add exHash (Some exOpaque) (exMethod (exRect 64 0)) TriangleStrip PainterState_default
        (exRegistry False ?p)) 0 = Inr ?r"
    by (simp add: resultObjects_def add_def deref_def getCurrentPool_def exRegistry_def
        isFramed_def eraseOccluded_def occludes_def store_def poolObjects_def ex_defs)
  from add_erases_at_most_one [OF d refl refl _ refl refl r refl] r
  show ?thesis
    by (simp add: exObject_def exState_def PainterState_default_def)
qed

section \<open>The content hash of a framed pool\<close>

text \<open>\<^verbatim>\<open>add\<close> folds the texture and the method into the running hash of a framed
  pool; \<^verbatim>\<open>addRepeated\<close> never touches the hash status.\<close>

lemma add_updates_hash:
  assumes "deref s (getCurrentPool s) = Inr (a, pool)"
    and "m_framed pool = Some pf"
    and "add H tex method mode ps s = Inr s'"
  shows "poolStatus s' a = Some (fst (m_status pf), H tex method (snd (m_status pf)))"
  using assms
  by (auto simp add: add_def Let_def isFramed_def updateHash_def poolStatus_def store_def
      split: if_splits sum.splits)

lemma addRepeated_keeps_status:
  assumes "deref s (getCurrentPool s) = Inr (a, pool)"
  shows "resultStatus (addRepeated tex method mode ps s) a = Inr (poolStatus s a)"
  using assms
  by (auto simp add: addRepeated_def Let_def resultStatus_def poolStatus_def store_def deref_def
      split: option.splits)

text \<open>
  C3: the specification has every primitive inserted into a framed pool, through
  \<^verbatim>\<open>add\<close> or through \<^verbatim>\<open>addRepeated\<close>, folded into the pool's content hash.
  \<^verbatim>\<open>addRepeated\<close> has no call of \<^verbatim>\<open>updateHash\<close>: on an empty framed pool with
  status (0, 0), \<^verbatim>\<open>addFilledRect\<close> moves the running hash to 1, whereas
  \<^verbatim>\<open>addRepeatedFilledRect\<close> with the same rectangle inserts its draw object and leaves
  the status at (0, 0), so that \<^verbatim>\<open>hasModification\<close> stays false.
\<close>

theorem addRepeated_skips_hash:
  "resultStatus
     (addFilledRect exHash (exRect 1 1) PainterState_default
        (exRegistry False \<lparr>m_objects = [], m_framed = Some (exFramed (0, 0))\<rparr>)) 0 =
     Inr (Some (0, 1)) \<and>
   resultStatus
     (addRepeatedFilledRect (exRect 1 1) PainterState_default
        (exRegistry False \<lparr>m_objects = [], m_framed = Some (exFramed (0, 0))\<rparr>)) 0 =
     Inr (Some (0, 0)) \<and>
   map_sum id (map drawMethods)
     (resultObjects
        (addRepeatedFilledRect (exRect 1 1) PainterState_default
           (exRegistry False \<lparr>m_objects = [], m_framed = Some (exFramed (0, 0))\<rparr>)) 0) =
     Inr [[(DrawMethod_init DRAW_REPEATED_FILLED_RECT)\<lparr>rects := (exRect 1 1, Rect_default)\<rparr>]]"
  by (simp add: resultStatus_def resultObjects_def addFilledRect_def addRepeatedFilledRect_def
      guarded_def multiThreadEnabled_def isOnThread_def Rect_isEmpty_def add_def addRepeated_def
      deref_def getCurrentPool_def exRegistry_def isFramed_def updateHash_def store_def
      poolObjects_def poolStatus_def defaultDrawMode_def ex_defs)

section \<open>Dropped calls\<close>

text \<open>
  C8: a call with malformed input returns the registry as it was, so neither the draw
  objects nor the hash of any pool change: an empty destination or source rectangle
  (whatever the texture pointer), an empty texture, a triangle with two equal points, a
  zero inner line width. The overloads that read the texture's size first are stated for
  a texture that is not null.
\<close>

theorem malformed_dropped:
  "(Rect_isEmpty dst \<or> Rect_isEmpty src \<longrightarrow>
      addTexturedRect H dst tex src originalDest ps s = Inr s \<and>
      addUpsideDownTexturedRect H dst tex src ps s = Inr s \<and>
      addRepeatedTexturedRect dst tex src ps s = Inr s) \<and>
   (isEmpty t \<longrightarrow>
      addTexturedRect H dst (Some t) src originalDest ps s = Inr s \<and>
      addTexturedRect2 H dst (Some t) ps s = Inr s \<and>
      addUpsideDownTexturedRect H dst (Some t) src ps s = Inr s \<and>
      addRepeatedTexturedRect dst (Some t) src ps s = Inr s \<and>
      addRepeatedTexturedRect2 dst (Some t) ps s = Inr s \<and>
      addTextureCoords H cb vertexHash (Some t) mode ps s = Inr s) \<and>
   (Rect_isEmpty dst \<longrightarrow>
      addTexturedRect2 H dst (Some t) ps s = Inr s \<and>
      addRepeatedTexturedRect2 dst (Some t) ps s = Inr s \<and>
      addRepeatedFilledRect dst ps s = Inr s \<and>
      addFilledRect H dst ps s = Inr s \<and>
      addBoundingRect H dst innerLineWidth ps s = Inr s) \<and>
   addBoundingRect H dst 0 ps s = Inr s \<and>
   (a = b \<or> a = c \<or> b = c \<longrightarrow> addFilledTriangle H a b c ps s = Inr s)"
  by (simp add: addTexturedRect_def addTexturedRect2_def addUpsideDownTexturedRect_def
      addRepeatedTexturedRect_def addRepeatedTexturedRect2_def addTextureCoords_def
      addRepeatedFilledRect_def addFilledRect_def addBoundingRect_def addFilledTriangle_def
      rectsOrTextureEmpty_def)

theorem malformed_dropped_witness:
  "Rect_isEmpty (Rect_default) \<and>
   addTexturedRect exHash Rect_default None (exRect 0 0) Point_default PainterState_default
     (exRegistry False \<lparr>m_objects = [], m_framed = Some (exFramed (0, 0))\<rparr>) =
     Inr (exRegistry False \<lparr>m_objects = [], m_framed = Some (exFramed (0, 0))\<rparr>) \<and>
   isEmpty (exTexture\<lparr>isEmpty := True\<rparr>) \<and>
   addTexturedRect2 exHash (exRect 1 1) (Some (exTexture\<lparr>isEmpty := True\<rparr>))
     PainterState_default
     (exRegistry False \<lparr>m_objects = [], m_framed = Some (exFramed (0, 0))\<rparr>) =
     Inr (exRegistry False \<lparr>m_objects = [], m_framed = Some (exFramed (0, 0))\<rparr>) \<and>
   addFilledTriangle exHash Point_default Point_default \<lparr>point_x = 1, point_y = 1\<rparr>
     PainterState_default
     (exRegistry False \<lparr>m_objects = [], m_framed = Some (exFramed (0, 0))\<rparr>) =
     Inr (exRegistry False \<lparr>m_objects = [], m_framed = Some (exFramed (0, 0))\<rparr>)"
  using malformed_dropped [of Rect_default "exRect 0 0" exHash None Point_default
      PainterState_default "exRegistry False \<lparr>m_objects = [], m_framed = Some (exFramed (0, 0))\<rparr>"
      "exTexture\<lparr>isEmpty := True\<rparr>"]
    malformed_dropped [of "exRect 1 1" "exRect 0 0" exHash None Point_default
      PainterState_default "exRegistry False \<lparr>m_objects = [], m_framed = Some (exFramed (0, 0))\<rparr>"
      "exTexture\<lparr>isEmpty := True\<rparr>" _ _ _ _ Point_default Point_default "\<lparr>point_x = 1, point_y = 1\<rparr>"]
  by (simp add: Rect_isEmpty_def Rect_default_def)

text \<open>
  C9: when multithreading is enabled and the calling thread has no thread-local current
  pool, every public add operation and \<^verbatim>\<open>addAction\<close> returns the registry as it was.
  The two-argument \<^verbatim>\<open>addTexturedRect\<close> reads the size of its texture before the
  guard, so it is stated for a texture that is not null.
\<close>

theorem off_thread_noop:
  assumes "multiThreadEnabled s" and "\<not> isOnThread s"
  shows "addFillCoords H cb vertexHash ps s = Inr s \<and>
         addTextureCoords H cb vertexHash tex mode ps s = Inr s \<and>
         addTexturedRect H dst tex src originalDest ps s = Inr s \<and>
         addTexturedRect2 H dst (Some t) ps s = Inr s \<and>
         addUpsideDownTexturedRect H dst tex src ps s = Inr s \<and>
         addRepeatedTexturedRect dst tex src ps s = Inr s \<and>
         addRepeatedTexturedRect2 dst tex ps s = Inr s \<and>
         addRepeatedFilledRect dst ps s = Inr s \<and>
         addFilledRect H dst ps s = Inr s \<and>
         addFilledTriangle H a b c ps s = Inr s \<and>
         addBoundingRect H dst innerLineWidth ps s = Inr s \<and>
         addAction act s = Inr s"
  using assms
  by (simp add: guarded_def addFillCoords_def addTextureCoords_def addTexturedRect_def
      addTexturedRect2_def addUpsideDownTexturedRect_def addRepeatedTexturedRect_def
      addRepeatedTexturedRect2_def addRepeatedFilledRect_def addFilledRect_def
      addFilledTriangle_def addBoundingRect_def addAction_def)

theorem off_thread_noop_witness:
  "multiThreadEnabled (exRegistry True \<lparr>m_objects = [], m_framed = None\<rparr>) \<and>
   \<not> isOnThread (exRegistry True \<lparr>m_objects = [], m_framed = None\<rparr>) \<and>
   addTexturedRect exHash (exRect 1 1) (Some exTexture) (exRect 0 0) Point_default
     PainterState_default (exRegistry True \<lparr>m_objects = [], m_framed = None\<rparr>) =
     Inr (exRegistry True \<lparr>m_objects = [], m_framed = None\<rparr>) \<and>
   addAction (Some 1) (exRegistry True \<lparr>m_objects = [], m_framed = None\<rparr>) =
     Inr (exRegistry True \<lparr>m_objects = [], m_framed = None\<rparr>)"
proof -
  have m: "multiThreadEnabled (exRegistry True \<lparr>m_objects = [], m_framed = None\<rparr>)"
    by (simp add: multiThreadEnabled_def exRegistry_def)
  have t: "\<not> isOnThread (exRegistry True \<lparr>m_objects = [], m_framed = None\<rparr>)"
    by (simp add: isOnThread_def exRegistry_def)
  from off_thread_noop [OF m t, of exHash _ _ PainterState_default "Some exTexture" _
      "exRect 1 1" "exRect 0 0" Point_default _ _ _ _ _ "Some 1"] m t
  show ?thesis by simp
qed

section \<open>Creating a framed pool\<close>

text \<open>
  C7: in \<^verbatim>\<open>createPoolF\<close> the branch that would set the composition mode to
  \<open>CompositionMode_Light\<close> tests \<open>MAP\<close> again and is never taken: for every pool type
  the frame buffer of the new pool has the composition mode the frame buffer was created
  with, it is the created frame buffer itself unless the type is \<open>MAP\<close>, and for
  \<open>MAP\<close> blending is disabled.
\<close>

theorem createPoolF_never_light:
  "createPoolF_framebuffer type fb = (if type = MAP then disableBlend fb else fb) \<and>
   fb_compositionMode (createPoolF_framebuffer type fb) = fb_compositionMode fb \<and>
   blendDisabled (createPoolF_framebuffer MAP fb) \<and>
   m_pools (fst (createPoolF fb type s)) type = Some (snd (createPoolF fb type s)) \<and>
   heap (fst (createPoolF fb type s)) (snd (createPoolF fb type s)) =
     Some \<lparr>m_objects = [],
           m_framed = Some \<lparr>m_framebuffer = (if type = MAP then disableBlend fb else fb),
                            m_status = (0, 0), m_dest = Rect_default, m_src = Rect_default,
                            m_beforeDraw = None, m_afterDraw = None\<rparr>\<rparr>"
  by (simp add: createPoolF_framebuffer_def createPoolF_def disableBlend_def Let_def)

theorem createPoolF_never_light_witness:
  "createPoolF_framebuffer LIGHT exFrameBuffer = exFrameBuffer \<and>
   fb_compositionMode (createPoolF_framebuffer LIGHT exFrameBuffer) = CompositionMode_Normal \<and>
   blendDisabled (createPoolF_framebuffer MAP exFrameBuffer) \<and>
   fb_compositionMode (createPoolF_framebuffer MAP exFrameBuffer) = CompositionMode_Normal"
  using createPoolF_never_light [of LIGHT exFrameBuffer]
    createPoolF_never_light [of MAP exFrameBuffer]
  by (simp add: exFrameBuffer_def disableBlend_def)

section \<open>Light sources\<close>

text \<open>
  C6: in darkness, two consecutive \<^verbatim>\<open>addLightSource\<close> calls with the same position
  and colour: the second one appends nothing and replaces the intensity of the last source
  by the maximum of that intensity and the new light's. From an empty list the two calls
  leave exactly one source, with the larger of the two intensities: intensity 7 for the
  intensities 3 and 7.
\<close>

theorem coalesce_lights:
  assumes dark: "isDark lv"
    and col: "light_color l1 = light_color l2"
    and lv1: "lv1 = addLightSource p l1 op1 lv"
    and lv2: "lv2 = addLightSource p l2 op2 lv1"
  shows "m_sources lv1 \<noteq> [] \<and>
         length (m_sources lv2) = length (m_sources lv1) \<and>
         m_sources lv2 = butlast (m_sources lv1) @
           [(last (m_sources lv1))\<lparr>intensity :=
               max (intensity (last (m_sources lv1))) (ucast (light_intensity l2))\<rparr>] \<and>
         (m_sources lv = [] \<longrightarrow>
            m_sources lv2 =
              [\<lparr>pos = p, color = light_color l1,
                intensity = max (ucast (light_intensity l1)) (ucast (light_intensity l2)),
                opacity = op1\<rparr>])"
proof -
  from dark lv1 have d1: "isDark lv1"
    by (simp add: addLightSource_def isDark_def)
  from dark lv1 col have l: "m_sources lv1 \<noteq> [] \<and> pos (last (m_sources lv1)) = p \<and>
      color (last (m_sources lv1)) = light_color l2"
    by (simp add: addLightSource_def)
  with d1 lv2 have s2: "m_sources lv2 = butlast (m_sources lv1) @
           [(last (m_sources lv1))\<lparr>intensity :=
               max (intensity (last (m_sources lv1))) (ucast (light_intensity l2))\<rparr>]"
    by (simp add: addLightSource_def)
  have e: "m_sources lv = [] \<longrightarrow> m_sources lv1 =
      [\<lparr>pos = p, color = light_color l1, intensity = ucast (light_intensity l1), opacity = op1\<rparr>]"
    using dark lv1 by (simp add: addLightSource_def)
  from l s2 e show ?thesis by auto
qed

theorem coalesce_lights_witness:
  "isDark (exLightView True []) \<and>
   m_sources (addLightSource Point_default (exLight 7) 1
               (addLightSource Point_default (exLight 3) 1 (exLightView True []))) =
     [\<lparr>pos = Point_default, color = 5, intensity = 7, opacity = 1\<rparr>]"
proof -
  have d: "isDark (exLightView True [])"
    by (simp add: isDark_def exLightView_def)
  have c: "light_color (exLight 3) = light_color (exLight 7)"
    by (simp add: exLight_def)
  have e: "m_sources (exLightView True []) = []"
    by (simp add: exLightView_def)
  have m: "max (ucast (light_intensity (exLight 3)) :: 16 word) (ucast (light_intensity (exLight 7))) = 7"
    by (simp add: exLight_def)
  from coalesce_lights [OF d c refl refl, of Point_default 1 1]
  have "m_sources (exLightView True []) = [] \<longrightarrow>
        m_sources (addLightSource Point_default (exLight 7) 1
               (addLightSource Point_default (exLight 3) 1 (exLightView True []))) =
          [\<lparr>pos = Point_default, color = light_color (exLight 3),
            intensity = max (ucast (light_intensity (exLight 3)))
                            (ucast (light_intensity (exLight 7))),
            opacity = 1\<rparr>]"
    by blast
  with e have "m_sources (addLightSource Point_default (exLight 7) 1
               (addLightSource Point_default (exLight 3) 1 (exLightView True []))) =
          [\<lparr>pos = Point_default, color = light_color (exLight 3),
            intensity = max (ucast (light_intensity (exLight 3)))
                            (ucast (light_intensity (exLight 7))),
            opacity = 1\<rparr>]"
    by blast
  with m d show ?thesis by (simp add: exLight_def)
qed

text \<open>
  C4 (as amended): a call of \<^verbatim>\<open>LightView::draw\<close> in darkness enables the pool and
  ends with the source list empty. Without darkness \<^verbatim>\<open>addLightSource\<close> returns the
  view as it was, without a new source, and \<^verbatim>\<open>draw\<close> disables the pool and issues
  no draw call; a source list that was empty is empty afterwards.
\<close>

theorem lightview_draw_sources:
  "(isDark lv \<longrightarrow>
      m_sources (fst (LightView_draw dst src lv)) = [] \<and>
      enabled (m_pool (fst (LightView_draw dst src lv)))) \<and>
   (\<not> isDark lv \<longrightarrow>
      addLightSource p light op lv = lv \<and>
      snd (LightView_draw dst src lv) = [] \<and>
      \<not> enabled (m_pool (fst (LightView_draw dst src lv))) \<and>
      (m_sources lv = [] \<longrightarrow> m_sources (fst (LightView_draw dst src lv)) = []))"
  by (simp add: LightView_draw_def addLightSource_def isDark_def Let_def)

theorem lightview_draw_sources_witness:
  "isDark (exLightView True [\<lparr>pos = Point_default, color = 5, intensity = 3, opacity = 1\<rparr>]) \<and>
   m_sources (fst (LightView_draw (exRect 0 0) (exRect 0 0)
     (exLightView True [\<lparr>pos = Point_default, color = 5, intensity = 3, opacity = 1\<rparr>]))) = [] \<and>
   \<not> isDark (exLightView False []) \<and>
   addLightSource Point_default (exLight 3) 1 (exLightView False []) = exLightView False [] \<and>
   m_sources (fst (LightView_draw (exRect 0 0) (exRect 0 0) (exLightView False []))) = [] \<and>
   \<not> enabled (m_pool (fst (LightView_draw (exRect 0 0) (exRect 0 0) (exLightView False []))))"
proof -
  have d: "isDark (exLightView True [\<lparr>pos = Point_default, color = 5, intensity = 3, opacity = 1\<rparr>])"
    by (simp add: isDark_def exLightView_def)
  have n: "\<not> isDark (exLightView False [])"
    by (simp add: isDark_def exLightView_def)
  have e: "m_sources (exLightView False []) = []"
    by (simp add: exLightView_def)
  from lightview_draw_sources [of "exLightView True [\<lparr>pos = Point_default, color = 5, intensity = 3, opacity = 1\<rparr>]"
      "exRect 0 0" "exRect 0 0"] d
  have a: "m_sources (fst (LightView_draw (exRect 0 0) (exRect 0 0)
     (exLightView True [\<lparr>pos = Point_default, color = 5, intensity = 3, opacity = 1\<rparr>]))) = []"
    by blast
  from lightview_draw_sources [of "exLightView False []" "exRect 0 0" "exRect 0 0"
      Point_default "exLight 3" 1] n e
  have b: "addLightSource Point_default (exLight 3) 1 (exLightView False []) = exLightView False [] \<and>
      m_sources (fst (LightView_draw (exRect 0 0) (exRect 0 0) (exLightView False []))) = [] \<and>
      \<not> enabled (m_pool (fst (LightView_draw (exRect 0 0) (exRect 0 0) (exLightView False []))))"
    by blast
  from a b d n show ?thesis by simp
qed

text \<open>
  That every call of \<^verbatim>\<open>draw\<close> ends with the source list empty, as the
  specification has it, fails without darkness: \<^verbatim>\<open>draw\<close> returns before it clears
  the list, so a source added while it was dark is still there after the call.
\<close>

theorem lightview_draw_keeps_sources_counterexample:
  "\<not> isDark (exLightView False [\<lparr>pos = Point_default, color = 5, intensity = 3, opacity = 1\<rparr>]) \<and>
   m_sources (fst (LightView_draw (exRect 0 0) (exRect 0 0)
     (exLightView False [\<lparr>pos = Point_default, color = 5, intensity = 3, opacity = 1\<rparr>]))) =
     [\<lparr>pos = Point_default, color = 5, intensity = 3, opacity = 1\<rparr>]"
  by (simp add: LightView_draw_def isDark_def exLightView_def)

section \<open>The end-of-frame draw\<close>

text \<open>
  On the owning thread, with the scratch buffer empty as \<^verbatim>\<open>drawObject\<close> always leaves
  it, replaying a draw object gives the events of \<open>objectEvents\<close> and replaying a list
  of draw objects gives them for each object, in order. On a population thread the replay
  only caches buffers and gives no event.
\<close>

lemma drawObject_off_thread:
  "drawObject False [] obj = (obj, [], objectEvents obj)"
  by (simp add: drawObject_def objectEvents_def addCoords_def split: option.splits)

lemma drawObjects_off_thread:
  "drawObjects False [] objs = (objs, [], concat (map objectEvents objs))"
  by (induction objs) (simp_all add: drawObject_off_thread)

lemma drawObjects_on_thread:
  "snd (snd (drawObjects True scratch objs)) = []"
proof (induction objs)
  case Nil
  then show ?case by simp
next
  case (Cons obj objs)
  have "\<exists>obj'. drawObject True scratch obj = (obj', scratch, [])"
    by (simp add: drawObject_def)
  then obtain obj' where "drawObject True scratch obj = (obj', scratch, [])" ..
  with Cons show ?case by (auto split: prod.splits)
qed

lemma store_scratch:
  "m_coordsbuffer s = [] \<Longrightarrow> store (s\<lparr>m_coordsbuffer := []\<rparr>) a pool = store s a pool"
  by (simp add: store_def)

lemma drawPoolEntry_off_thread:
  assumes off: "\<not> isOnThread s"
    and scratch: "m_coordsbuffer s = []"
    and p: "deref s p = Inr (a, pool)"
  shows "drawPoolEntry s p = Inr (store s a (afterFrame pool), framePassEvents pool)"
proof (cases pool)
  case (fields objs framed)
  show ?thesis
  proof (cases framed)
    case None
    with fields off scratch p show ?thesis
      by (simp add: drawPoolEntry_def drawObjects_off_thread store_scratch afterFrame_def
          framePassEvents_def)
  next
    case (Some pf)
    with fields off scratch p show ?thesis
      by (simp add: drawPoolEntry_def Let_def drawObjects_off_thread store_scratch
          afterFrame_def framePassEvents_def compositeEvents_def hookEvents_def
          split: option.splits)
  qed
qed


lemma isOnThread_store [simp]: "isOnThread (store s a pool) = isOnThread s"
  by (simp add: isOnThread_def store_def)

lemma m_coordsbuffer_store [simp]: "m_coordsbuffer (store s a pool) = m_coordsbuffer s"
  by (simp add: store_def)

lemma heap_store_same [simp]: "heap (store s a pool) a = Some pool"
  by (simp add: store_def)

lemma poolTypes_complete: "ty \<in> set poolTypes"
  by (cases ty) (simp_all add: poolTypes_def)

lemma poolTypes_distinct: "distinct poolTypes"
  by (simp add: poolTypes_def)

text \<open>The pass over a list of pools at different addresses, and the whole draw of a
  registry whose slots hold different pools.\<close>

lemma drawPools_off_thread:
  assumes "\<not> isOnThread s" and "m_coordsbuffer s = []"
    and "distinct (map addrOf tys)"
    and "\<forall>ty \<in> set tys. heap s (addrOf ty) = Some (poolOf ty)"
  shows "drawPools s (map (\<lambda>ty. Some (addrOf ty)) tys) =
           Inr (fold (\<lambda>ty s. store s (addrOf ty) (afterFrame (poolOf ty))) tys s,
                concat (map (\<lambda>ty. framePassEvents (poolOf ty)) tys))"
  using assms
proof (induction tys arbitrary: s)
  case Nil
  then show ?case by simp
next
  case (Cons ty tys)
  let ?s1 = "store s (addrOf ty) (afterFrame (poolOf ty))"
  from Cons.prems have d: "deref s (Some (addrOf ty)) = Inr (addrOf ty, poolOf ty)"
    by (simp add: deref_def)
  from drawPoolEntry_off_thread [OF Cons.prems(1) Cons.prems(2) d]
  have e: "drawPoolEntry s (Some (addrOf ty)) = Inr (?s1, framePassEvents (poolOf ty))" .
  have h: "\<forall>ty' \<in> set tys. heap ?s1 (addrOf ty') = Some (poolOf ty')"
  proof
    fix ty' assume m: "ty' \<in> set tys"
    with Cons.prems(3) have "addrOf ty' \<noteq> addrOf ty" by (auto simp add: image_iff)
    with m Cons.prems(4) show "heap ?s1 (addrOf ty') = Some (poolOf ty')" by simp
  qed
  from Cons.prems have "\<not> isOnThread ?s1" "m_coordsbuffer ?s1 = []" "distinct (map addrOf tys)"
    by simp_all
  from Cons.IH [OF this h] e show ?case by simp
qed

lemma heap_fold_other:
  "b \<notin> addrOf ` set tys \<Longrightarrow>
   heap (fold (\<lambda>ty s. store s (addrOf ty) (f ty)) tys s) b = heap s b"
  by (induction tys arbitrary: s) auto

lemma heap_fold_same:
  "distinct (map addrOf tys) \<Longrightarrow> ty \<in> set tys \<Longrightarrow>
   heap (fold (\<lambda>ty s. store s (addrOf ty) (f ty)) tys s) (addrOf ty) = Some (f ty)"
proof (induction tys arbitrary: s)
  case Nil
  then show ?case by simp
next
  case (Cons x xs)
  show ?case
  proof (cases "ty = x")
    case True
    from Cons.prems have "addrOf x \<notin> addrOf ` set xs" by simp
    with True show ?thesis by (simp add: heap_fold_other)
  next
    case False
    with Cons show ?thesis by simp
  qed
qed

lemma joinPools_all:
  "\<forall>ty \<in> set tys. heap s (addrOf ty) = Some (poolOf ty) \<Longrightarrow>
   joinPools s (map (\<lambda>ty. Some (addrOf ty)) tys) = Inr (map (\<lambda>ty. Join (addrOf ty)) tys)"
  by (induction tys) (simp_all add: deref_def)

lemma draw_off_thread:
  assumes off: "\<not> isOnThread s"
    and scratch: "m_coordsbuffer s = []"
    and slots: "\<forall>ty. m_pools s ty = Some (addrOf ty)"
    and pools: "\<forall>ty. heap s (addrOf ty) = Some (poolOf ty)"
    and inj: "inj addrOf"
  shows "draw s =
           Inr (fold (\<lambda>ty s. store s (addrOf ty) (afterFrame (poolOf ty))) poolTypes s,
                (if multiThreadEnabled s then map (\<lambda>ty. Join (addrOf ty)) poolTypes else []) @
                concat (map (\<lambda>ty. framePassEvents (poolOf ty)) poolTypes))"
proof -
  from slots have m: "map (m_pools s) poolTypes = map (\<lambda>ty. Some (addrOf ty)) poolTypes"
    by simp
  from inj have dist: "distinct (map addrOf poolTypes)"
    by (simp add: distinct_map poolTypes_distinct inj_on_def inj_def)
  from pools have all: "\<forall>ty \<in> set poolTypes. heap s (addrOf ty) = Some (poolOf ty)"
    by simp
  have dp: "drawPools s (map (m_pools s) poolTypes) =
      Inr (fold (\<lambda>ty s. store s (addrOf ty) (afterFrame (poolOf ty))) poolTypes s,
           concat (map (\<lambda>ty. framePassEvents (poolOf ty)) poolTypes))"
    unfolding m by (rule drawPools_off_thread [OF off scratch dist all])
  have jp: "joinPools s (map (m_pools s) poolTypes) = Inr (map (\<lambda>ty. Join (addrOf ty)) poolTypes)"
    unfolding m by (rule joinPools_all [OF all])
  from dp jp show ?thesis
    by (simp add: draw_def)
qed

text \<open>
  C5: the end-of-frame \<^verbatim>\<open>draw\<close>, called on the owning thread (no thread-local current
  pool) on a registry whose slots hold different pools. Its events are the joins, when
  multithreading is enabled, and then the pass over each pool, in the order of the pool
  types. For every framed pool whose frame buffer is drawable: when the running hash
  differs from the committed snapshot, the frame buffer is bound, every draw object of the
  pool is replayed, in order, the frame buffer is released and then composited (hook
  before, draw with the pool's destination and source rectangles, hook after), and the
  pool is left with the snapshot committed; when the hash is unchanged, nothing is bound
  or replayed and the cached frame buffer is composited in the same way. Either way the
  pool is left without draw objects.
\<close>

theorem draw_end_of_frame:
  assumes off: "\<not> isOnThread s"
    and scratch: "m_coordsbuffer s = []"
    and slots: "\<forall>ty. m_pools s ty = Some (addrOf ty)"
    and pools: "\<forall>ty. heap s (addrOf ty) = Some (poolOf ty)"
    and inj: "inj addrOf"
  shows "map_sum id snd (draw s) =
           Inr ((if multiThreadEnabled s then map (\<lambda>ty. Join (addrOf ty)) poolTypes else []) @
                concat (map (\<lambda>ty. framePassEvents (poolOf ty)) poolTypes)) \<and>
         (\<forall>ty pf. m_framed (poolOf ty) = Some pf \<and> isDrawable (m_framebuffer pf) \<longrightarrow>
            framePassEvents (poolOf ty) =
              (if hasModification pf
               then [SaveAndResetState, Bind (fb_id (m_framebuffer pf))] @
                    concat (map objectEvents (m_objects (poolOf ty))) @
                    [Release (fb_id (m_framebuffer pf))] @
                    compositeEvents pf @ [RestoreSavedState]
               else [SaveAndResetState] @ compositeEvents pf @ [RestoreSavedState]) \<and>
            map_sum id (\<lambda>r. heap (fst r) (addrOf ty)) (draw s) =
              Inr (Some \<lparr>m_objects = [],
                         m_framed = Some (if hasModification pf then updateStatus pf else pf)\<rparr>) \<and>
            \<not> hasModification (updateStatus pf))"
proof -
  let ?final = "fold (\<lambda>ty s. store s (addrOf ty) (afterFrame (poolOf ty))) poolTypes s"
  let ?evs = "concat (map (\<lambda>ty. framePassEvents (poolOf ty)) poolTypes)"
  let ?joins = "if multiThreadEnabled s then map (\<lambda>ty. Join (addrOf ty)) poolTypes else []"
  from inj have dist: "distinct (map addrOf poolTypes)"
    by (simp add: distinct_map poolTypes_distinct inj_on_def inj_def)
  have d: "draw s = Inr (?final, ?joins @ ?evs)"
    by (rule draw_off_thread [OF off scratch slots pools inj])
  have fin: "heap ?final (addrOf ty) = Some (afterFrame (poolOf ty))" for ty
    by (rule heap_fold_same [OF dist poolTypes_complete])
  show ?thesis
  proof (intro conjI allI impI)
    from d show "map_sum id snd (draw s) = Inr (?joins @ ?evs)" by simp
  next
    fix ty pf
    assume h: "m_framed (poolOf ty) = Some pf \<and> isDrawable (m_framebuffer pf)"
    then show "framePassEvents (poolOf ty) =
              (if hasModification pf
               then [SaveAndResetState, Bind (fb_id (m_framebuffer pf))] @
                    concat (map objectEvents (m_objects (poolOf ty))) @
                    [Release (fb_id (m_framebuffer pf))] @
                    compositeEvents pf @ [RestoreSavedState]
               else [SaveAndResetState] @ compositeEvents pf @ [RestoreSavedState])"
      by (simp add: framePassEvents_def)
    from h d fin [of ty]
    show "map_sum id (\<lambda>r. heap (fst r) (addrOf ty)) (draw s) =
              Inr (Some \<lparr>m_objects = [],
                         m_framed = Some (if hasModification pf then updateStatus pf else pf)\<rparr>)"
      by (simp add: afterFrame_def)
    show "\<not> hasModification (updateStatus pf)"
      by (simp add: hasModification_def updateStatus_def)
  qed
qed


theorem draw_end_of_frame_witness:
  "\<not> isOnThread exFrameRegistry \<and> inj exAddr \<and>
   map_sum id snd (draw exFrameRegistry) =
     Inr [SaveAndResetState, Bind 7,
          ExecuteState (exState (Some exTexture)), SetTexture (Some exTexture),
          DrawCoords [AddQuad (exRect 5 5) (exRect 0 0)] TriangleStrip,
          ExecuteState (exState None), SetTexture None,
          DrawCoords [AddRect (exRect 1 1)] Triangles,
          Release 7, BeforeDraw 2, FrameBufferDraw 7 (exRect 0 0) (exRect 0 0), AfterDraw 3,
          RestoreSavedState,
          SaveAndResetState, FrameBufferDraw 7 (exRect 0 0) (exRect 0 0), AfterDraw 3,
          RestoreSavedState,
          ExecuteState (exState None), SetTexture None,
          DrawCoords [AddRect (exRect 2 2)] Triangles] \<and>
   map_sum id (\<lambda>r. poolStatus (fst r) 0) (draw exFrameRegistry) = Inr (Some (1, 1)) \<and>
   map_sum id (\<lambda>r. poolObjects (fst r) 0) (draw exFrameRegistry) = Inr []"
proof -
  have off: "\<not> isOnThread exFrameRegistry"
    by (simp add: isOnThread_def exFrameRegistry_def)
  have scratch: "m_coordsbuffer exFrameRegistry = []"
    by (simp add: exFrameRegistry_def)
  have slots: "\<forall>ty. m_pools exFrameRegistry ty = Some (exAddr ty)"
    by (simp add: exFrameRegistry_def)
  have pools: "\<forall>ty. heap exFrameRegistry (exAddr ty) = Some (exPool ty)"
  proof
    fix ty show "heap exFrameRegistry (exAddr ty) = Some (exPool ty)"
      by (cases ty) (simp_all add: exFrameRegistry_def exAddr_def)
  qed
  have inj: "inj exAddr"
  proof (rule injI)
    fix x y assume "exAddr x = exAddr y"
    then show "x = y" by (cases x; cases y) (simp_all add: exAddr_def)
  qed
  note th = draw_end_of_frame [OF off scratch slots pools inj]
  have multi: "\<not> multiThreadEnabled exFrameRegistry"
    by (simp add: multiThreadEnabled_def exFrameRegistry_def)
  have evMap: "framePassEvents (exPool MAP) =
      [SaveAndResetState, Bind 7,
       ExecuteState (exState (Some exTexture)), SetTexture (Some exTexture),
       DrawCoords [AddQuad (exRect 5 5) (exRect 0 0)] TriangleStrip,
       ExecuteState (exState None), SetTexture None,
       DrawCoords [AddRect (exRect 1 1)] Triangles,
       Release 7, BeforeDraw 2, FrameBufferDraw 7 (exRect 0 0) (exRect 0 0), AfterDraw 3,
       RestoreSavedState]"
    by (simp add: framePassEvents_def exPool_def exFramed_def exFrameBuffer_def
        hasModification_def objectEvents_def compositeEvents_def methodCoords_def exObject_def
        exMethod_def exFilled_def exState_def DrawMethod_init_def)
  have evLight: "framePassEvents (exPool LIGHT) =
      [SaveAndResetState, FrameBufferDraw 7 (exRect 0 0) (exRect 0 0), AfterDraw 3,
       RestoreSavedState]"
    by (simp add: framePassEvents_def exPool_def exFramed_def exFrameBuffer_def
        hasModification_def compositeEvents_def)
  have evUi: "framePassEvents (exPool UI) =
      [ExecuteState (exState None), SetTexture None,
       DrawCoords [AddRect (exRect 2 2)] Triangles]"
    by (simp add: framePassEvents_def exPool_def objectEvents_def methodCoords_def exObject_def
        exFilled_def exState_def DrawMethod_init_def)
  have evFg: "framePassEvents (exPool FOREGROUND) = []"
    by (simp add: framePassEvents_def exPool_def)
  from th multi evMap evLight evUi evFg
  have a: "map_sum id snd (draw exFrameRegistry) =
     Inr [SaveAndResetState, Bind 7,
          ExecuteState (exState (Some exTexture)), SetTexture (Some exTexture),
          DrawCoords [AddQuad (exRect 5 5) (exRect 0 0)] TriangleStrip,
          ExecuteState (exState None), SetTexture None,
          DrawCoords [AddRect (exRect 1 1)] Triangles,
          Release 7, BeforeDraw 2, FrameBufferDraw 7 (exRect 0 0) (exRect 0 0), AfterDraw 3,
          RestoreSavedState,
          SaveAndResetState, FrameBufferDraw 7 (exRect 0 0) (exRect 0 0), AfterDraw 3,
          RestoreSavedState,
          ExecuteState (exState None), SetTexture None,
          DrawCoords [AddRect (exRect 2 2)] Triangles]"
    by (simp add: poolTypes_def)
  have fm: "m_framed (exPool MAP) = Some ((exFramed (0, 1))\<lparr>m_beforeDraw := Some 2\<rparr>) \<and>
      isDrawable (m_framebuffer ((exFramed (0, 1))\<lparr>m_beforeDraw := Some 2\<rparr>))"
    by (simp add: exPool_def exFramed_def exFrameBuffer_def)
  from th have "m_framed (exPool MAP) = Some ((exFramed (0, 1))\<lparr>m_beforeDraw := Some 2\<rparr>) \<and>
      isDrawable (m_framebuffer ((exFramed (0, 1))\<lparr>m_beforeDraw := Some 2\<rparr>)) \<longrightarrow>
      map_sum id (\<lambda>r. heap (fst r) (exAddr MAP)) (draw exFrameRegistry) =
        Inr (Some \<lparr>m_objects = [],
              m_framed = Some (if hasModification ((exFramed (0, 1))\<lparr>m_beforeDraw := Some 2\<rparr>)
                               then updateStatus ((exFramed (0, 1))\<lparr>m_beforeDraw := Some 2\<rparr>)
                               else (exFramed (0, 1))\<lparr>m_beforeDraw := Some 2\<rparr>)\<rparr>)"
    by blast
  with fm have h: "map_sum id (\<lambda>r. heap (fst r) 0) (draw exFrameRegistry) =
        Inr (Some \<lparr>m_objects = [],
              m_framed = Some (updateStatus ((exFramed (0, 1))\<lparr>m_beforeDraw := Some 2\<rparr>))\<rparr>)"
    by (simp add: exAddr_def hasModification_def exFramed_def)
  then have b: "map_sum id (\<lambda>r. poolStatus (fst r) 0) (draw exFrameRegistry) = Inr (Some (1, 1))"
    by (cases "draw exFrameRegistry") (simp_all add: poolStatus_def updateStatus_def exFramed_def)
  from h have c: "map_sum id (\<lambda>r. poolObjects (fst r) 0) (draw exFrameRegistry) = Inr []"
    by (cases "draw exFrameRegistry") (simp_all add: poolObjects_def)
  from off inj a b c show ?thesis by simp
qed

lemma fold_store_fields:
  "isOnThread (fold (\<lambda>ty s. store s (addrOf ty) (f ty)) tys s) = isOnThread s \<and>
   m_coordsbuffer (fold (\<lambda>ty s. store s (addrOf ty) (f ty)) tys s) = m_coordsbuffer s \<and>
   m_pools (fold (\<lambda>ty s. store s (addrOf ty) (f ty)) tys s) = m_pools s \<and>
   multiThreadEnabled (fold (\<lambda>ty s. store s (addrOf ty) (f ty)) tys s) = multiThreadEnabled s"
  by (induction tys arbitrary: s) (simp_all add: store_def isOnThread_def multiThreadEnabled_def)

lemma framePassEvents_afterFrame:
  assumes "m_framed pool = Some pf" and "isDrawable (m_framebuffer pf)"
  shows "framePassEvents (afterFrame pool) =
           [SaveAndResetState] @ compositeEvents pf @ [RestoreSavedState]"
  using assms
  by (simp add: framePassEvents_def afterFrame_def hasModification_def updateStatus_def
      compositeEvents_def)

text \<open>A second draw with nothing added in between: every framed pool with a drawable
  frame buffer is composited only.\<close>

lemma draw_again_composites_only:
  assumes off: "\<not> isOnThread s"
    and scratch: "m_coordsbuffer s = []"
    and slots: "\<forall>ty. m_pools s ty = Some (addrOf ty)"
    and pools: "\<forall>ty. heap s (addrOf ty) = Some (poolOf ty)"
    and inj: "inj addrOf"
    and first: "draw s = Inr (s1, evs)"
  shows "map_sum id snd (draw s1) =
           Inr ((if multiThreadEnabled s then map (\<lambda>ty. Join (addrOf ty)) poolTypes else []) @
                concat (map (\<lambda>ty. framePassEvents (afterFrame (poolOf ty))) poolTypes))"
proof -
  let ?final = "fold (\<lambda>ty s. store s (addrOf ty) (afterFrame (poolOf ty))) poolTypes s"
  from inj have dist: "distinct (map addrOf poolTypes)"
    by (simp add: distinct_map poolTypes_distinct inj_on_def inj_def)
  from draw_off_thread [OF off scratch slots pools inj] first have s1: "s1 = ?final"
    by simp
  have off1: "\<not> isOnThread s1" and scratch1: "m_coordsbuffer s1 = []"
    and slots1: "\<forall>ty. m_pools s1 ty = Some (addrOf ty)"
    and multi1: "multiThreadEnabled s1 = multiThreadEnabled s"
    using off scratch slots unfolding s1 by (simp_all add: fold_store_fields)
  have pools1: "\<forall>ty. heap s1 (addrOf ty) = Some (afterFrame (poolOf ty))"
    unfolding s1 by (simp add: heap_fold_same [OF dist poolTypes_complete])
  from draw_off_thread [OF off1 scratch1 slots1 pools1 inj] multi1
  show ?thesis by simp
qed

end
